theory Spec2Isabelle
  imports Complex_Main
begin

section \<open>Data model\<close>

text \<open>
  The subscription and billing subsystem of the backend: the entitlement middleware
  (\<^verbatim>\<open>src/middleware/subscription.ts\<close>), the payment gateway helpers and the
  subscription routes (\<^verbatim>\<open>/verify-payment\<close>, \<^verbatim>\<open>/change-plan\<close>,
  \<^verbatim>\<open>/webhook\<close>). The database behind the Prisma client is a record of tables, each
  table a list of rows; a handler takes the database and returns the new one together
  with its HTTP response. A \<^verbatim>\<open>Date\<close> is its \<^verbatim>\<open>getTime()\<close> value, an
  integer number of milliseconds. Fields of a row that none of the modelled handlers
  reads or writes (cancellation metadata, auto-renew, descriptions) are left out.
  Record fields carry a prefix where two tables share a column name.
\<close>

type_synonym time = int

datatype subscription_status = TRIAL | ACTIVE | PAST_DUE | SUSPENDED | EXPIRED | CANCELLED

datatype payment_status = CREATED | CAPTURED | FAILED | REFUNDED

record plan =
  plan_id :: string
  plan_name :: string
  monthlyPrice :: rat
  yearlyPrice :: "rat option"
  plan_currency :: string
  maxEmployees :: int
  isActive :: bool
  isCustom :: bool
  hasPayroll :: bool
  hasAdvancedAnalytics :: bool
  hasCustomIntegrations :: bool
  hasPrioritySupport :: bool
  hasDedicatedManager :: bool
  hasCustomWorkflows :: bool
  hasSLA :: bool
  hasOnPremise :: bool

text \<open>
  The \<^verbatim>\<open>metadata\<close> column holds \<^verbatim>\<open>JSON.stringify({pendingPlanChange,
  pendingPlanName, changeEffectiveDate})\<close>; the model keeps the three values.
\<close>

record pending_plan_change =
  pendingPlanChange :: string
  pendingPlanName :: string
  changeEffectiveDate :: "time option"

record subscription =
  sub_id :: string
  sub_organizationId :: string
  sub_planId :: string
  sub_status :: subscription_status
  trialEndDate :: "time option"
  currentPeriodStart :: "time option"
  currentPeriodEnd :: "time option"
  sub_billingCycle :: string
  metadata :: "pending_plan_change option"

record user =
  user_id :: string
  user_organizationId :: "string option"
  user_status :: string
  has_employee :: bool

record payment =
  pay_id :: string
  pay_subscriptionId :: string
  amount :: rat
  pay_currency :: string
  razorpayOrderId :: string
  razorpayPaymentId :: "string option"
  razorpaySignature :: "string option"
  pay_status :: payment_status
  pay_method :: "string option"
  paidAt :: "time option"
  refundedAt :: "time option"
  errorCode :: "string option"
  errorDescription :: "string option"

record invoice =
  inv_subscriptionId :: string
  invoiceNumber :: string
  subtotal :: rat
  tax :: rat
  total :: rat
  inv_currency :: string
  periodStart :: time
  periodEnd :: time
  inv_status :: string
  inv_paidAt :: time
  dueDate :: time

record audit_log =
  log_userId :: string
  log_action :: string
  log_entityType :: string
  log_entityId :: string

record db =
  users :: "user list"
  plans :: "plan list"
  subscriptions :: "subscription list"
  payments :: "payment list"
  invoices :: "invoice list"
  auditLogs :: "audit_log list"

subsection \<open>Queries and updates of the Prisma client\<close>

text \<open>JavaScript truthiness of an optional string: \<^verbatim>\<open>undefined\<close>, \<^verbatim>\<open>null\<close> and
  the empty string are falsy.\<close>

fun truthy :: "string option \<Rightarrow> bool" where
  "truthy None = False"
| "truthy (Some s) = (s \<noteq> [])"

definition find_user :: "db \<Rightarrow> string \<Rightarrow> user option" where
  "find_user d uid = List.find (\<lambda>u. user_id u = uid) (users d)"

definition find_plan :: "db \<Rightarrow> string \<Rightarrow> plan option" where
  "find_plan d pid = List.find (\<lambda>p. plan_id p = pid) (plans d)"

definition find_subscription_by_org :: "db \<Rightarrow> string \<Rightarrow> subscription option" where
  "find_subscription_by_org d org = List.find (\<lambda>s. sub_organizationId s = org) (subscriptions d)"

definition find_subscription :: "db \<Rightarrow> string \<Rightarrow> subscription option" where
  "find_subscription d i = List.find (\<lambda>s. sub_id s = i) (subscriptions d)"

definition find_payment_by_order :: "db \<Rightarrow> string \<Rightarrow> payment option" where
  "find_payment_by_order d oid = List.find (\<lambda>p. razorpayOrderId p = oid) (payments d)"

definition find_payment_by_payment_id :: "db \<Rightarrow> string \<Rightarrow> payment option" where
  "find_payment_by_payment_id d pid =
     List.find (\<lambda>p. razorpayPaymentId p = Some pid) (payments d)"

definition update_subscription :: "string \<Rightarrow> (subscription \<Rightarrow> subscription) \<Rightarrow> db \<Rightarrow> db" where
  "update_subscription i f d =
     d\<lparr>subscriptions := map (\<lambda>s. if sub_id s = i then f s else s) (subscriptions d)\<rparr>"

definition update_payment :: "string \<Rightarrow> (payment \<Rightarrow> payment) \<Rightarrow> db \<Rightarrow> db" where
  "update_payment i f d =
     d\<lparr>payments := map (\<lambda>p. if pay_id p = i then f p else p) (payments d)\<rparr>"

text \<open>\<^verbatim>\<open>prisma.user.count({where: {organizationId, status: 'ACTIVE', employee: {isNot: null}}})\<close>\<close>

definition count_active_employees :: "db \<Rightarrow> string \<Rightarrow> int" where
  "count_active_employees d org =
     int (length (filter (\<lambda>u. user_organizationId u = Some org \<and> user_status u = ''ACTIVE''
                                \<and> has_employee u) (users d)))"

section \<open>Entitlement middleware\<close>

text \<open>
  What a middleware reads from and attaches to the request: the authenticated user's id,
  and the \<^verbatim>\<open>subscription\<close> (with its plan included), \<^verbatim>\<open>organizationId\<close>,
  \<^verbatim>\<open>employeeCount\<close> and \<^verbatim>\<open>employeeLimit\<close> properties. A middleware either calls
  \<^verbatim>\<open>next()\<close> with the request as it left it, or answers.
\<close>

record request =
  req_user_id :: "string option"
  req_subscription :: "(subscription \<times> plan option) option"
  req_organizationId :: "string option"
  req_employeeCount :: "int option"
  req_employeeLimit :: "int option"

datatype response = Response (http_status: nat) (err: string) (code: "string option")

datatype mw_result = Next request | Reply response | Unhandled

definition gracePeriod :: int where
  "gracePeriod = 3 * 24 * 60 * 60 * 1000"

definition organization_of :: "user option \<Rightarrow> string option" where
  "organization_of u =
     (case u of None \<Rightarrow> None
      | Some usr \<Rightarrow> (if truthy (user_organizationId usr) then user_organizationId usr else None))"

definition set_status :: "subscription_status \<Rightarrow> subscription \<Rightarrow> subscription" where
  "set_status st s = s\<lparr>sub_status := st\<rparr>"

definition attach :: "request \<Rightarrow> subscription \<Rightarrow> plan option \<Rightarrow> string \<Rightarrow> mw_result" where
  "attach req s p org = Next (req\<lparr>req_subscription := Some (s, p), req_organizationId := Some org\<rparr>)"

definition checkSubscription :: "db \<Rightarrow> time \<Rightarrow> request \<Rightarrow> db \<times> mw_result" where
  "checkSubscription d now req =
     (if \<not> truthy (req_user_id req) then (d, Reply (Response 401 ''Unauthorized'' None))
      else case organization_of (find_user d (the (req_user_id req))) of
        None \<Rightarrow> (d, Next (req\<lparr>req_subscription := None\<rparr>))
      | Some org \<Rightarrow>
         (case find_subscription_by_org d org of
            None \<Rightarrow> (d, Reply (Response 403 ''No subscription found'' (Some ''NO_SUBSCRIPTION'')))
          | Some s \<Rightarrow>
             (if sub_status s = TRIAL then
                (case trialEndDate s of
                   Some t \<Rightarrow>
                     if now > t then
                       (update_subscription (sub_id s) (set_status EXPIRED) d,
                        Reply (Response 403 ''Trial expired'' (Some ''TRIAL_EXPIRED'')))
                     else (d, attach req s (find_plan d (sub_planId s)) org)
                 | None \<Rightarrow> (d, attach req s (find_plan d (sub_planId s)) org))
              else if sub_status s = ACTIVE then
                (case currentPeriodEnd s of
                   Some t \<Rightarrow>
                     if now > t then
                       (update_subscription (sub_id s) (set_status PAST_DUE) d,
                        Reply (Response 403 ''Subscription past due'' (Some ''SUBSCRIPTION_PAST_DUE'')))
                     else (d, attach req s (find_plan d (sub_planId s)) org)
                 | None \<Rightarrow> (d, attach req s (find_plan d (sub_planId s)) org))
              else if sub_status s \<in> set [EXPIRED, CANCELLED, SUSPENDED] then
                (d, Reply (Response 403 ''Subscription inactive'' (Some ''SUBSCRIPTION_INACTIVE'')))
              else if sub_status s = PAST_DUE then
                (case currentPeriodEnd s of
                   Some t \<Rightarrow>
                     if now > t + gracePeriod then
                       (update_subscription (sub_id s) (set_status SUSPENDED) d,
                        Reply (Response 403 ''Subscription suspended'' (Some ''SUBSCRIPTION_SUSPENDED'')))
                     else (d, attach req s (find_plan d (sub_planId s)) org)
                 | None \<Rightarrow> (d, attach req s (find_plan d (sub_planId s)) org))
              else (d, attach req s (find_plan d (sub_planId s)) org))))"

definition enforceEmployeeLimit :: "db \<Rightarrow> request \<Rightarrow> mw_result" where
  "enforceEmployeeLimit d req =
     (case req_subscription req of
        None \<Rightarrow> Next req
      | Some (s, p) \<Rightarrow>
         (if \<not> truthy (req_organizationId req) then Next req
          else (case p of
            None \<Rightarrow> Reply (Response 500 ''Internal Server Error'' None)
          | Some pl \<Rightarrow>
             (if maxEmployees pl = - 1 then Next req
              else (let currentEmployeeCount = count_active_employees d (the (req_organizationId req))
                    in (if currentEmployeeCount \<ge> maxEmployees pl then
                          Reply (Response 403 ''Employee limit reached'' (Some ''EMPLOYEE_LIMIT_REACHED''))
                        else Next (req\<lparr>req_employeeCount := Some currentEmployeeCount,
                                        req_employeeLimit := Some (maxEmployees pl)\<rparr>)))))))"

definition featureMap :: "plan \<Rightarrow> string \<Rightarrow> bool option" where
  "featureMap p = map_of
     [(''payroll'', hasPayroll p),
      (''advancedAnalytics'', hasAdvancedAnalytics p),
      (''customIntegrations'', hasCustomIntegrations p),
      (''prioritySupport'', hasPrioritySupport p),
      (''dedicatedManager'', hasDedicatedManager p),
      (''customWorkflows'', hasCustomWorkflows p),
      (''sla'', hasSLA p),
      (''onPremise'', hasOnPremise p)]"

definition requireFeature :: "string \<Rightarrow> request \<Rightarrow> mw_result" where
  "requireFeature feature req =
     (case req_subscription req of
        None \<Rightarrow> Next req
      | Some (s, p) \<Rightarrow>
         (case p of
            None \<Rightarrow> Unhandled
          | Some pl \<Rightarrow>
             if featureMap pl feature = Some False then
               Reply (Response 403 ''Feature not available'' (Some ''FEATURE_NOT_AVAILABLE''))
             else Next req))"

text \<open>The three middlewares in the order a route mounts them; a reply ends the chain.\<close>

definition entitlement_chain :: "string \<Rightarrow> db \<Rightarrow> time \<Rightarrow> request \<Rightarrow> db \<times> mw_result" where
  "entitlement_chain feature d now req =
     (case checkSubscription d now req of
        (d1, Next r1) \<Rightarrow>
          (case enforceEmployeeLimit d1 r1 of
             Next r2 \<Rightarrow> (d1, requireFeature feature r2)
           | other \<Rightarrow> (d1, other))
      | (d1, other) \<Rightarrow> (d1, other))"

section \<open>JavaScript numbers\<close>

text \<open>
  A JavaScript \<^verbatim>\<open>number\<close> is an IEEE-754 double. A finite double is a rational, and
  each arithmetic operation returns the exact result rounded to the nearest double, ties
  to the even significand. The model rounds to 53 significant bits with an unbounded
  exponent: overflow to \<^verbatim>\<open>Infinity\<close>, \<^verbatim>\<open>NaN\<close> and subnormal numbers are outside
  it (every amount below is far from both ends of the exponent range).
\<close>

fun bit_length :: "nat \<Rightarrow> nat" where
  "bit_length n = (if n = 0 then 0 else Suc (bit_length (n div 2)))"

declare bit_length.simps [simp del]

definition pow2 :: "int \<Rightarrow> rat" where
  "pow2 e = 2 powi e"

text \<open>For \<open>x > 0\<close>, the exponent \<open>k\<close> with \<open>2^k \<le> x < 2^(k+1)\<close>.\<close>

definition ilog2 :: "rat \<Rightarrow> int" where
  "ilog2 x = (if x \<ge> 1 then int (bit_length (nat \<lfloor>x\<rfloor>)) - 1
              else - int (bit_length (nat (\<lceil>1 / x\<rceil> - 1))))"

definition round_half_even :: "rat \<Rightarrow> int" where
  "round_half_even x =
     (let f = \<lfloor>x\<rfloor>; r = x - of_int f
      in if r < 1 / 2 then f else if r > 1 / 2 then f + 1 else if even f then f else f + 1)"

definition fl :: "rat \<Rightarrow> rat" where
  "fl x = (if x = 0 then 0
           else (let e = ilog2 \<bar>x\<bar> - 52; m = round_half_even (\<bar>x\<bar> / pow2 e)
                 in sgn x * of_int m * pow2 e))"

definition js_mul :: "rat \<Rightarrow> rat \<Rightarrow> rat" where
  "js_mul a b = fl (a * b)"

definition js_div :: "rat \<Rightarrow> rat \<Rightarrow> rat" where
  "js_div a b = fl (a / b)"

text \<open>\<^verbatim>\<open>Math.round\<close>: the nearest integer, a tie going up.\<close>

definition Math_round :: "rat \<Rightarrow> rat" where
  "Math_round x = of_int \<lfloor>x + 1 / 2\<rfloor>"

text \<open>The literals \<^verbatim>\<open>0.18\<close> and \<^verbatim>\<open>1.18\<close> denote the doubles nearest to them.\<close>

definition lit_0_18 :: rat where
  "lit_0_18 = fl (18 / 100)"

definition lit_1_18 :: rat where
  "lit_1_18 = fl (118 / 100)"

text \<open>
  Half a unit in the last place, relative to the value: the largest relative error of one
  rounding. \<open>near n t x\<close> says that \<open>x\<close> is within \<open>n\<close> roundings of the exact
  value \<open>t\<close>.
\<close>

definition ulp_half :: rat where
  "ulp_half = 1 / 2 ^ 53"

definition near :: "nat \<Rightarrow> rat \<Rightarrow> rat \<Rightarrow> bool" where
  "near n t x = (t * (1 - ulp_half) ^ n \<le> x \<and> x \<le> t * (1 + ulp_half) ^ n)"

section \<open>Payment gateway helpers\<close>

text \<open>
  \<^verbatim>\<open>crypto.createHmac('sha256', key).update(msg).digest('hex')\<close> belongs to the Node
  runtime; it is the parameter \<open>hmac\<close> (key first, then message) of everything that
  verifies a signature.
\<close>

type_synonym hmac_fn = "string \<Rightarrow> string \<Rightarrow> string"

definition verifyRazorpaySignature :: "hmac_fn \<Rightarrow> string \<Rightarrow> string \<Rightarrow> string \<Rightarrow> string \<Rightarrow> bool" where
  "verifyRazorpaySignature hmac key_secret orderId paymentId signature =
     (let expectedSignature = hmac key_secret (orderId @ ''|'' @ paymentId)
      in expectedSignature = signature)"

text \<open>\<open>env_secret\<close> is \<^verbatim>\<open>process.env.RAZORPAY_WEBHOOK_SECRET\<close>.\<close>

definition verifyWebhookSignature ::
  "hmac_fn \<Rightarrow> string option \<Rightarrow> string \<Rightarrow> string \<Rightarrow> string option \<Rightarrow> bool" where
  "verifyWebhookSignature hmac env_secret body signature secret =
     (let webhookSecret = (if truthy secret then the secret
                           else if truthy env_secret then the env_secret else [])
      in hmac webhookSecret body = signature)"

section \<open>Checkout: create-order\<close>

record create_order_request =
  co_user_id :: string
  co_planId :: "string option"
  co_billingCycle :: "string option"

datatype create_order_reply = COFail nat string | COOrder string rat

text \<open>The amount in paise: \<^verbatim>\<open>Math.round(price * 100)\<close>.\<close>

definition order_amount :: "plan \<Rightarrow> string \<Rightarrow> rat" where
  "order_amount p billingCycle =
     (if billingCycle = ''YEARLY'' \<and> yearlyPrice p \<noteq> None \<and> yearlyPrice p \<noteq> Some 0
      then Math_round (js_mul (the (yearlyPrice p)) 100)
      else Math_round (js_mul (monthlyPrice p) 100))"

text \<open>
  \<open>configured\<close> is \<^verbatim>\<open>isRazorpayConfigured()\<close>; \<open>gateway\<close> is the order id that
  \<^verbatim>\<open>createRazorpayOrder\<close> returns, or \<open>None\<close> when the call throws; \<open>new_id\<close> is the
  primary key the database gives the new Payment row.
\<close>

definition create_order ::
  "bool \<Rightarrow> string option \<Rightarrow> string \<Rightarrow> db \<Rightarrow> create_order_request \<Rightarrow> db \<times> create_order_reply" where
  "create_order configured gateway new_id d rq =
     (if \<not> configured then (d, COFail 503 ''Payment gateway not configured. Please contact support.'')
      else if \<not> truthy (co_planId rq) then (d, COFail 400 ''Plan ID is required'')
      else (case organization_of (find_user d (co_user_id rq)) of
         None \<Rightarrow> (d, COFail 400 ''No organization found'')
       | Some org \<Rightarrow>
          (case find_plan d (the (co_planId rq)) of
             None \<Rightarrow> (d, COFail 404 ''Plan not found'')
           | Some p \<Rightarrow>
              (if isCustom p then (d, COFail 400 ''Enterprise plan requires contacting sales'')
               else (let billingCycle = (case co_billingCycle rq of None \<Rightarrow> ''MONTHLY'' | Some c \<Rightarrow> c);
                         amt = order_amount p billingCycle
                     in (case gateway of
                           None \<Rightarrow> (d, COFail 500 ''Failed to create payment order'')
                         | Some order_id \<Rightarrow>
                            (case find_subscription_by_org d org of
                               None \<Rightarrow> (d, COFail 404 ''No subscription found'')
                             | Some s \<Rightarrow>
                                (d\<lparr>payments := payments d @
                                     [\<lparr>pay_id = new_id, pay_subscriptionId = sub_id s,
                                       amount = js_div amt 100, pay_currency = plan_currency p,
                                       razorpayOrderId = order_id, razorpayPaymentId = None,
                                       razorpaySignature = None, pay_status = CREATED,
                                       pay_method = None, paidAt = None, refundedAt = None,
                                       errorCode = None, errorDescription = None\<rparr>]\<rparr>,
                                 COOrder order_id amt))))))))"

section \<open>Checkout: verify-payment\<close>

record verify_request =
  vr_user_id :: string
  razorpay_order_id :: "string option"
  razorpay_payment_id :: "string option"
  razorpay_signature :: "string option"
  vr_planId :: "string option"
  vr_billingCycle :: "string option"

text \<open>\<^verbatim>\<open>billingCycle = 'MONTHLY'\<close> when the body names none.\<close>

definition cycle_of :: "verify_request \<Rightarrow> string" where
  "cycle_of rq = (case vr_billingCycle rq of None \<Rightarrow> ''MONTHLY'' | Some c \<Rightarrow> c)"

datatype verify_reply = VFail nat string | VOk "subscription_status option" string

text \<open>
  The handler issues four writes one after another, each awaited on its own; a write that
  throws sends control to the \<^verbatim>\<open>catch\<close> block, which answers 500. \<open>fails\<close> says
  which writes throw.
\<close>

datatype write_op = PaymentUpdate | SubscriptionUpdate | InvoiceCreate | AuditLogCreate

definition invoice_tax :: "rat \<Rightarrow> rat" where
  "invoice_tax amt = js_div (Math_round (js_mul (js_mul amt lit_0_18) 100)) 100"

definition invoice_total :: "rat \<Rightarrow> rat" where
  "invoice_total amt = js_div (Math_round (js_mul (js_mul amt lit_1_18) 100)) 100"

definition period_end :: "string \<Rightarrow> time \<Rightarrow> time" where
  "period_end billingCycle now =
     (if billingCycle = ''YEARLY'' then now + 365 * 24 * 60 * 60 * 1000
      else now + 30 * 24 * 60 * 60 * 1000)"

definition capture_payment :: "verify_request \<Rightarrow> string option \<Rightarrow> time \<Rightarrow> payment \<Rightarrow> payment" where
  "capture_payment rq fetched_method now p =
     p\<lparr>razorpayPaymentId := razorpay_payment_id rq,
       razorpaySignature := razorpay_signature rq,
       pay_status := CAPTURED,
       pay_method := fetched_method,
       paidAt := Some now\<rparr>"

definition activate :: "string \<Rightarrow> string \<Rightarrow> time \<Rightarrow> subscription \<Rightarrow> subscription" where
  "activate targetPlanId billingCycle now s =
     s\<lparr>sub_status := ACTIVE,
       sub_planId := targetPlanId,
       currentPeriodStart := Some now,
       currentPeriodEnd := Some (period_end billingCycle now),
       sub_billingCycle := billingCycle,
       trialEndDate := Some now\<rparr>"

definition new_invoice :: "payment \<Rightarrow> string \<Rightarrow> string \<Rightarrow> time \<Rightarrow> invoice" where
  "new_invoice p number billingCycle now =
     \<lparr>inv_subscriptionId = pay_subscriptionId p,
      invoiceNumber = number,
      subtotal = amount p,
      tax = invoice_tax (amount p),
      total = invoice_total (amount p),
      inv_currency = pay_currency p,
      periodStart = now,
      periodEnd = period_end billingCycle now,
      inv_status = ''PAID'',
      inv_paidAt = now,
      dueDate = now\<rparr>"

text \<open>
  The four writes of the handler in the order it issues them, each followed by the rest of
  the handler. \<open>failed\<close> is the answer of the \<^verbatim>\<open>catch\<close> block.
\<close>

definition failed :: verify_reply where
  "failed = VFail 500 ''Payment verification failed''"

definition write_audit_log :: "(write_op \<Rightarrow> bool) \<Rightarrow> verify_request \<Rightarrow> payment \<Rightarrow> string \<Rightarrow> db
    \<Rightarrow> db \<times> verify_reply" where
  "write_audit_log fails rq p number d =
     (if fails AuditLogCreate then (d, failed)
      else (let d' = d\<lparr>auditLogs := auditLogs d @
                         [\<lparr>log_userId = vr_user_id rq, log_action = ''PAYMENT'',
                           log_entityType = ''Subscription'',
                           log_entityId = pay_subscriptionId p\<rparr>]\<rparr>
            in (d', VOk (map_option sub_status (find_subscription d' (pay_subscriptionId p)))
                     number)))"

definition write_invoice :: "(write_op \<Rightarrow> bool) \<Rightarrow> verify_request \<Rightarrow> payment \<Rightarrow> string \<Rightarrow> string
    \<Rightarrow> time \<Rightarrow> db \<Rightarrow> db \<times> verify_reply" where
  "write_invoice fails rq p number billingCycle now d =
     (if fails InvoiceCreate then (d, failed)
      else write_audit_log fails rq p number
             (d\<lparr>invoices := invoices d @ [new_invoice p number billingCycle now]\<rparr>))"

text \<open>\<^verbatim>\<open>prisma.subscription.update\<close> throws when no row has the id.\<close>

definition write_subscription :: "(write_op \<Rightarrow> bool) \<Rightarrow> verify_request \<Rightarrow> payment \<Rightarrow> string \<Rightarrow> string
    \<Rightarrow> string \<Rightarrow> time \<Rightarrow> db \<Rightarrow> db \<times> verify_reply" where
  "write_subscription fails rq p targetPlanId number billingCycle now d =
     (if fails SubscriptionUpdate \<or> find_subscription d (pay_subscriptionId p) = None
      then (d, failed)
      else write_invoice fails rq p number billingCycle now
             (update_subscription (pay_subscriptionId p)
                (activate targetPlanId billingCycle now) d))"

definition write_payment :: "(write_op \<Rightarrow> bool) \<Rightarrow> verify_request \<Rightarrow> string option \<Rightarrow> payment
    \<Rightarrow> string \<Rightarrow> string \<Rightarrow> string \<Rightarrow> time \<Rightarrow> db \<Rightarrow> db \<times> verify_reply" where
  "write_payment fails rq fetched_method p targetPlanId number billingCycle now d =
     (if fails PaymentUpdate then (d, failed)
      else write_subscription fails rq p targetPlanId number billingCycle now
             (update_payment (pay_id p) (capture_payment rq fetched_method now) d))"

text \<open>
  \<open>fetched_method\<close> is \<^verbatim>\<open>paymentDetails?.method || null\<close> of the best-effort
  \<^verbatim>\<open>fetchPaymentDetails\<close> call; \<open>year_month\<close> and \<open>rand_hex\<close> are the date digits
  and the random bytes of the invoice number. Reading \<^verbatim>\<open>payment.subscription.planId\<close>
  throws when the request names no plan and the payment's subscription is missing.
\<close>

definition verify_payment ::
  "hmac_fn \<Rightarrow> string \<Rightarrow> (write_op \<Rightarrow> bool) \<Rightarrow> string option \<Rightarrow> string \<Rightarrow> string \<Rightarrow>
   db \<Rightarrow> time \<Rightarrow> verify_request \<Rightarrow> db \<times> verify_reply" where
  "verify_payment hmac key_secret fails fetched_method year_month rand_hex d now rq =
     (if \<not> truthy (razorpay_order_id rq) \<or> \<not> truthy (razorpay_payment_id rq)
         \<or> \<not> truthy (razorpay_signature rq)
      then (d, VFail 400 ''Missing payment details'')
      else if \<not> verifyRazorpaySignature hmac key_secret (the (razorpay_order_id rq))
                  (the (razorpay_payment_id rq)) (the (razorpay_signature rq))
      then (d, VFail 400 ''Invalid payment signature. Payment verification failed.'')
      else (case find_payment_by_order d (the (razorpay_order_id rq)) of
         None \<Rightarrow> (d, VFail 404 ''Payment record not found'')
       | Some p \<Rightarrow>
          (let billingCycle = cycle_of rq;
               sub = find_subscription d (pay_subscriptionId p)
           in (if \<not> truthy (vr_planId rq) \<and> sub = None then (d, failed)
               else write_payment fails rq fetched_method p
                      (if truthy (vr_planId rq) then the (vr_planId rq) else sub_planId (the sub))
                      (''INV-'' @ year_month @ ''-'' @ rand_hex) billingCycle now d))))"

section \<open>Plan change\<close>

record change_plan_request =
  cp_user_id :: string
  cp_planId :: "string option"

datatype change_plan_reply =
    CPFail nat string
  | CannotDowngrade int int
  | TrialPlanChanged string
  | RequiresPayment string
  | DowngradeScheduled string "time option"

definition pending_change :: "plan \<Rightarrow> subscription \<Rightarrow> subscription" where
  "pending_change newPlan s =
     s\<lparr>metadata := Some \<lparr>pendingPlanChange = plan_id newPlan,
                         pendingPlanName = plan_name newPlan,
                         changeEffectiveDate = currentPeriodEnd s\<rparr>\<rparr>"

definition set_plan :: "string \<Rightarrow> subscription \<Rightarrow> subscription" where
  "set_plan pid s = s\<lparr>sub_planId := pid\<rparr>"

text \<open>
  Everything after the seat check. Reading \<^verbatim>\<open>subscription.plan.monthlyPrice\<close> of a
  subscription whose plan row is missing throws, and the \<^verbatim>\<open>catch\<close> block answers 500.
\<close>

definition apply_change :: "db \<Rightarrow> subscription \<Rightarrow> plan \<Rightarrow> db \<times> change_plan_reply" where
  "apply_change d s newPlan =
     (if sub_status s = TRIAL then
        (update_subscription (sub_id s) (set_plan (plan_id newPlan)) d,
         TrialPlanChanged (plan_name newPlan))
      else (case find_plan d (sub_planId s) of
         None \<Rightarrow> (d, CPFail 500 ''Failed to change plan'')
       | Some cur \<Rightarrow>
          (if monthlyPrice newPlan > monthlyPrice cur then (d, RequiresPayment (plan_id newPlan))
           else (update_subscription (sub_id s) (pending_change newPlan) d,
                 DowngradeScheduled (plan_name newPlan) (currentPeriodEnd s)))))"

definition seat_check :: "db \<Rightarrow> string \<Rightarrow> plan \<Rightarrow> change_plan_reply option" where
  "seat_check d org newPlan =
     (if maxEmployees newPlan \<noteq> - 1 then
        (let employeeCount = count_active_employees d org
         in (if employeeCount > maxEmployees newPlan
             then Some (CannotDowngrade employeeCount (maxEmployees newPlan)) else None))
      else None)"

definition change_plan :: "db \<Rightarrow> change_plan_request \<Rightarrow> db \<times> change_plan_reply" where
  "change_plan d rq =
     (if \<not> truthy (cp_planId rq) then (d, CPFail 400 ''Plan ID is required'')
      else (case organization_of (find_user d (cp_user_id rq)) of
         None \<Rightarrow> (d, CPFail 400 ''No organization found'')
       | Some org \<Rightarrow>
          (case find_plan d (the (cp_planId rq)) of
             None \<Rightarrow> (d, CPFail 404 ''Plan not found or inactive'')
           | Some newPlan \<Rightarrow>
              (if \<not> isActive newPlan then (d, CPFail 404 ''Plan not found or inactive'')
               else (case find_subscription_by_org d org of
                  None \<Rightarrow> (d, CPFail 404 ''No subscription found'')
                | Some s \<Rightarrow>
                   (case seat_check d org newPlan of
                      Some refusal \<Rightarrow> (d, refusal)
                    | None \<Rightarrow> apply_change d s newPlan))))))"

section \<open>Webhook\<close>

text \<open>
  The parsed body of a webhook delivery (\<^verbatim>\<open>req.body\<close> after the JSON body parser), by
  its \<^verbatim>\<open>event\<close> tag, with the entity fields the handler reads. The request also carries
  the bytes as received, \<open>wh_raw_body\<close>. \<open>stringify\<close> stands for
  \<^verbatim>\<open>JSON.stringify\<close> on the parsed body.
\<close>

text \<open>
  A field of the entity as the handler passes it on to \<^verbatim>\<open>prisma.payment.update\<close>:
  a field that is absent (\<^verbatim>\<open>undefined\<close>) leaves the column as it is, \<^verbatim>\<open>null\<close>
  clears it, a value is stored.
\<close>

datatype 'a json_field = Absent | JNull | JValue 'a

definition write_field :: "'a json_field \<Rightarrow> 'a option \<Rightarrow> 'a option" where
  "write_field f old = (case f of Absent \<Rightarrow> old | JNull \<Rightarrow> None | JValue v \<Rightarrow> Some v)"

record payment_entity =
  pe_id :: string
  pe_order_id :: string
  pe_method :: "string json_field"
  pe_error_code :: "string json_field"
  pe_error_description :: "string json_field"

datatype event =
    PaymentCaptured payment_entity
  | PaymentFailed payment_entity
  | RefundCreated string
  | OtherEvent string

record webhook_request =
  wh_signature :: "string option"
  wh_raw_body :: string
  wh_body :: event

definition on_captured :: "payment_entity \<Rightarrow> time \<Rightarrow> payment \<Rightarrow> payment" where
  "on_captured e now p =
     p\<lparr>pay_status := CAPTURED, razorpayPaymentId := Some (pe_id e),
       pay_method := write_field (pe_method e) (pay_method p), paidAt := Some now\<rparr>"

definition on_failed :: "payment_entity \<Rightarrow> payment \<Rightarrow> payment" where
  "on_failed e p =
     p\<lparr>pay_status := FAILED, razorpayPaymentId := Some (pe_id e),
       errorCode := write_field (pe_error_code e) (errorCode p),
       errorDescription := write_field (pe_error_description e) (errorDescription p)\<rparr>"

definition on_refund :: "time \<Rightarrow> payment \<Rightarrow> payment" where
  "on_refund now p = p\<lparr>pay_status := REFUNDED, refundedAt := Some now\<rparr>"

text \<open>
  \<^verbatim>\<open>razorpayPaymentId\<close> is a unique column (the refund case looks a payment up by it
  with \<^verbatim>\<open>findUnique\<close>). An update that would give the row with id \<open>i\<close> a payment id
  that another row already holds throws; the handler's \<^verbatim>\<open>catch\<close> block swallows the
  error and answers 200, so nothing is written. Apart from that constraint, a database
  call of the webhook is taken to return.
\<close>

definition payment_id_taken :: "db \<Rightarrow> string \<Rightarrow> string \<Rightarrow> bool" where
  "payment_id_taken d i pid =
     list_ex (\<lambda>q. pay_id q \<noteq> i \<and> razorpayPaymentId q = Some pid) (payments d)"

text \<open>The payment an event is about: the row its case of the switch looks up.\<close>

definition event_payment :: "db \<Rightarrow> event \<Rightarrow> payment option" where
  "event_payment d ev =
     (case ev of
        PaymentCaptured e \<Rightarrow> find_payment_by_order d (pe_order_id e)
      | PaymentFailed e \<Rightarrow> find_payment_by_order d (pe_order_id e)
      | RefundCreated payment_id \<Rightarrow> find_payment_by_payment_id d payment_id
      | OtherEvent t \<Rightarrow> None)"

text \<open>The status literal an event's case of the switch writes.\<close>

definition event_status :: "event \<Rightarrow> payment_status list" where
  "event_status ev =
     (case ev of
        PaymentCaptured e \<Rightarrow> [CAPTURED]
      | PaymentFailed e \<Rightarrow> [FAILED]
      | RefundCreated payment_id \<Rightarrow> [REFUNDED]
      | OtherEvent t \<Rightarrow> [])"

definition handle_event :: "db \<Rightarrow> time \<Rightarrow> event \<Rightarrow> db" where
  "handle_event d now ev =
     (case ev of
        PaymentCaptured e \<Rightarrow>
          (case find_payment_by_order d (pe_order_id e) of
             Some p \<Rightarrow> (if pay_status p \<noteq> CAPTURED
                        then (if payment_id_taken d (pay_id p) (pe_id e) then d
                              else update_payment (pay_id p) (on_captured e now) d)
                        else d)
           | None \<Rightarrow> d)
      | PaymentFailed e \<Rightarrow>
          (case find_payment_by_order d (pe_order_id e) of
             Some p \<Rightarrow> (if payment_id_taken d (pay_id p) (pe_id e) then d
                        else update_payment (pay_id p) (on_failed e) d)
           | None \<Rightarrow> d)
      | RefundCreated payment_id \<Rightarrow>
          (case find_payment_by_payment_id d payment_id of
             Some p \<Rightarrow> update_payment (pay_id p) (on_refund now) d
           | None \<Rightarrow> d)
      | OtherEvent t \<Rightarrow> d)"

definition webhook ::
  "hmac_fn \<Rightarrow> (event \<Rightarrow> string) \<Rightarrow> string option \<Rightarrow> db \<Rightarrow> time \<Rightarrow> webhook_request \<Rightarrow> db \<times> response" where
  "webhook hmac stringify env_secret d now rq =
     (let signature = wh_signature rq; body = stringify (wh_body rq)
      in (if truthy signature \<and> \<not> verifyWebhookSignature hmac env_secret body (the signature) None
          then (d, Response 400 ''Invalid signature'' None)
          else (handle_event d now (wh_body rq), Response 200 [] None)))"

section \<open>Sample data\<close>

text \<open>
  The plans of the seed script, one organisation with its administrator, a user that
  belongs to no organisation, and one checkout. The theorems below are instantiated on
  them.
\<close>

definition starter :: plan where
  "starter = \<lparr>plan_id = ''starter'', plan_name = ''Starter'', monthlyPrice = 499,
     yearlyPrice = Some 4990, plan_currency = ''INR'', maxEmployees = 25, isActive = True,
     isCustom = False, hasPayroll = False, hasAdvancedAnalytics = False,
     hasCustomIntegrations = False, hasPrioritySupport = False, hasDedicatedManager = False,
     hasCustomWorkflows = False, hasSLA = False, hasOnPremise = False\<rparr>"

definition professional :: plan where
  "professional = \<lparr>plan_id = ''professional'', plan_name = ''Professional'', monthlyPrice = 1499,
     yearlyPrice = Some 14990, plan_currency = ''INR'', maxEmployees = 200, isActive = True,
     isCustom = False, hasPayroll = True, hasAdvancedAnalytics = True,
     hasCustomIntegrations = True, hasPrioritySupport = True, hasDedicatedManager = False,
     hasCustomWorkflows = False, hasSLA = False, hasOnPremise = False\<rparr>"

definition enterprise :: plan where
  "enterprise = \<lparr>plan_id = ''enterprise'', plan_name = ''Enterprise'', monthlyPrice = 0,
     yearlyPrice = Some 0, plan_currency = ''INR'', maxEmployees = - 1, isActive = True,
     isCustom = True, hasPayroll = True, hasAdvancedAnalytics = True,
     hasCustomIntegrations = True, hasPrioritySupport = True, hasDedicatedManager = True,
     hasCustomWorkflows = True, hasSLA = True, hasOnPremise = True\<rparr>"

definition admin :: user where
  "admin = \<lparr>user_id = ''u1'', user_organizationId = Some ''org1'', user_status = ''ACTIVE'',
     has_employee = True\<rparr>"

definition loner :: user where
  "loner = \<lparr>user_id = ''u0'', user_organizationId = None, user_status = ''ACTIVE'',
     has_employee = False\<rparr>"

definition employee_of :: "string \<Rightarrow> user" where
  "employee_of uid = \<lparr>user_id = uid, user_organizationId = Some ''org1'',
     user_status = ''ACTIVE'', has_employee = True\<rparr>"

definition sample_subscription :: "string \<Rightarrow> subscription_status \<Rightarrow> time option \<Rightarrow> subscription" where
  "sample_subscription pid st pe =
     \<lparr>sub_id = ''s1'', sub_organizationId = ''org1'', sub_planId = pid, sub_status = st,
      trialEndDate = Some 1000, currentPeriodStart = Some 1000, currentPeriodEnd = pe,
      sub_billingCycle = ''MONTHLY'', metadata = None\<rparr>"

definition sample_payment :: "payment_status \<Rightarrow> payment" where
  "sample_payment st =
     \<lparr>pay_id = ''p1'', pay_subscriptionId = ''s1'', amount = 1499, pay_currency = ''INR'',
      razorpayOrderId = ''order_1'', razorpayPaymentId = (if st = CREATED then None else Some ''pay_1''),
      razorpaySignature = None, pay_status = st, pay_method = None, paidAt = None,
      refundedAt = None, errorCode = None, errorDescription = None\<rparr>"

definition sample_db :: "user list \<Rightarrow> subscription \<Rightarrow> payment \<Rightarrow> db" where
  "sample_db extra s p =
     \<lparr>users = [admin, loner] @ extra, plans = [starter, professional, enterprise],
      subscriptions = [s], payments = [p], invoices = [], auditLogs = []\<rparr>"

definition request_of :: "string \<Rightarrow> request" where
  "request_of uid = \<lparr>req_user_id = Some uid, req_subscription = None,
     req_organizationId = None, req_employeeCount = None, req_employeeLimit = None\<rparr>"

definition staff :: "nat \<Rightarrow> user list" where
  "staff n = map (\<lambda>i. employee_of (replicate (Suc i) (CHR ''e''))) [0..<n]"

definition change_to :: "string \<Rightarrow> change_plan_request" where
  "change_to pid = \<lparr>cp_user_id = ''u1'', cp_planId = Some pid\<rparr>"

text \<open>
  Stand-ins for the two runtime functions the handlers take as parameters, for the closed
  examples: a keyed function of the message that is injective in it, and a serialisation
  of the parsed event.
\<close>

definition sample_hmac :: hmac_fn where
  "sample_hmac key msg = key @ ''#'' @ msg"

definition sample_stringify :: "event \<Rightarrow> string" where
  "sample_stringify ev =
     (case ev of
        PaymentCaptured e \<Rightarrow> ''payment.captured:'' @ pe_order_id e @ '':'' @ pe_id e
      | PaymentFailed e \<Rightarrow> ''payment.failed:'' @ pe_order_id e @ '':'' @ pe_id e
      | RefundCreated pid \<Rightarrow> ''refund.created:'' @ pid
      | OtherEvent t \<Rightarrow> t)"

definition entity :: payment_entity where
  "entity = \<lparr>pe_id = ''pay_1'', pe_order_id = ''order_1'', pe_method = JValue ''upi'',
     pe_error_code = Absent, pe_error_description = Absent\<rparr>"

text \<open>A second checkout of the same tenant, already paid, beside the first.\<close>

definition other_payment :: payment where
  "other_payment = (sample_payment CAPTURED)\<lparr>pay_id := ''p2'', razorpayOrderId := ''order_2'',
     razorpayPaymentId := Some ''pay_2''\<rparr>"

definition two_payments :: "payment_status \<Rightarrow> db" where
  "two_payments st =
     (sample_db [] (sample_subscription ''starter'' ACTIVE (Some 5000)) (sample_payment st))
       \<lparr>payments := [sample_payment st, other_payment]\<rparr>"

definition delivery :: "string option \<Rightarrow> event \<Rightarrow> webhook_request" where
  "delivery sig ev = \<lparr>wh_signature = sig, wh_raw_body = sample_stringify ev, wh_body = ev\<rparr>"

definition confirmation :: verify_request where
  "confirmation = \<lparr>vr_user_id = ''u1'', razorpay_order_id = Some ''order_1'',
     razorpay_payment_id = Some ''pay_1'',
     razorpay_signature = Some (sample_hmac ''key_secret'' ''order_1|pay_1''),
     vr_planId = Some ''professional'', vr_billingCycle = None\<rparr>"

definition only_fails :: "write_op \<Rightarrow> write_op \<Rightarrow> bool" where
  "only_fails w op = (op = w)"

definition never_fails :: "write_op \<Rightarrow> bool" where
  "never_fails op = False"

section \<open>Sequences of webhook deliveries\<close>

text \<open>Deliveries handled one after another, each at its own time.\<close>

definition run_webhooks ::
  "hmac_fn \<Rightarrow> (event \<Rightarrow> string) \<Rightarrow> string option \<Rightarrow> (time \<times> webhook_request) list \<Rightarrow> db \<Rightarrow> db" where
  "run_webhooks hmac stringify env_secret reqs d =
     fold (\<lambda>(t, rq) d'. fst (webhook hmac stringify env_secret d' t rq)) reqs d"

section \<open>What a handler may rewrite\<close>

text \<open>
  \<open>rows_kept i allowed d d'\<close>: the payment table of \<open>d'\<close> is that of \<open>d\<close>, row by
  row, except that a row with id \<open>i\<close> may have been rewritten with a status among
  \<open>allowed\<close>.
\<close>

definition rows_kept :: "string \<Rightarrow> payment_status list \<Rightarrow> db \<Rightarrow> db \<Rightarrow> bool" where
  "rows_kept i allowed d d' =
     list_all2 (\<lambda>q q'. q' = q \<or> (pay_id q = i \<and> pay_status q' \<in> set allowed))
       (payments d) (payments d')"

section \<open>The conditions the guard tests\<close>

text \<open>
  The three conditions under which \<^const>\<open>checkSubscription\<close> falls through to
  \<^verbatim>\<open>next()\<close>, and the \<^verbatim>\<open>code\<close> of the denial it sends for each stored status.
\<close>

definition trial_valid :: "subscription \<Rightarrow> time \<Rightarrow> bool" where
  "trial_valid s now =
     (sub_status s = TRIAL \<and> (case trialEndDate s of None \<Rightarrow> True | Some t \<Rightarrow> \<not> now > t))"

definition active_unexpired :: "subscription \<Rightarrow> time \<Rightarrow> bool" where
  "active_unexpired s now =
     (sub_status s = ACTIVE \<and> (case currentPeriodEnd s of None \<Rightarrow> True | Some t \<Rightarrow> \<not> now > t))"

definition within_grace :: "subscription \<Rightarrow> time \<Rightarrow> bool" where
  "within_grace s now =
     (sub_status s = PAST_DUE
      \<and> (case currentPeriodEnd s of None \<Rightarrow> True | Some t \<Rightarrow> \<not> now > t + gracePeriod))"

definition denial_code :: "subscription_status \<Rightarrow> string" where
  "denial_code st =
     (case st of TRIAL \<Rightarrow> ''TRIAL_EXPIRED'' | ACTIVE \<Rightarrow> ''SUBSCRIPTION_PAST_DUE''
      | PAST_DUE \<Rightarrow> ''SUBSCRIPTION_SUSPENDED'' | _ \<Rightarrow> ''SUBSCRIPTION_INACTIVE'')"

section \<open>Evaluating the queries on the sample data\<close>

lemmas sample_defs = starter_def professional_def enterprise_def admin_def loner_def
  employee_of_def change_to_def sample_subscription_def sample_payment_def sample_db_def request_of_def

lemmas query_defs = find_user_def find_plan_def find_subscription_by_org_def find_subscription_def
  find_payment_by_order_def find_payment_by_payment_id_def organization_of_def
  update_subscription_def update_payment_def count_active_employees_def

lemmas webhook_defs = webhook_def verifyWebhookSignature_def handle_event_def delivery_def
  entity_def on_captured_def on_failed_def on_refund_def run_webhooks_def
  payment_id_taken_def write_field_def

lemmas verify_defs = verify_payment_def verifyRazorpaySignature_def write_payment_def
  write_subscription_def write_invoice_def write_audit_log_def failed_def cycle_of_def
  capture_payment_def activate_def confirmation_def only_fails_def never_fails_def
  sample_hmac_def

lemma find_map_preserved:
  assumes "\<And>x. P (f x) = P x"
  shows "List.find P (map f xs) = map_option f (List.find P xs)"
  using assms by (induction xs) auto

lemma find_by_org_update:
  assumes "\<And>x. sub_organizationId (f x) = sub_organizationId x"
  shows "find_subscription_by_org (update_subscription i f d) org
     = map_option (\<lambda>s. if sub_id s = i then f s else s) (find_subscription_by_org d org)"
  unfolding find_subscription_by_org_def update_subscription_def
  by (simp add: find_map_preserved assms)

lemma find_by_id_update:
  assumes "\<And>x. sub_id (f x) = sub_id x"
  shows "find_subscription (update_subscription i f d) j
     = map_option (\<lambda>s. if sub_id s = i then f s else s) (find_subscription d j)"
  unfolding find_subscription_def update_subscription_def
  by (simp add: find_map_preserved assms)

lemma find_by_order_update:
  assumes "\<And>x. razorpayOrderId (f x) = razorpayOrderId x"
  shows "find_payment_by_order (update_payment i f d) oid
     = map_option (\<lambda>p. if pay_id p = i then f p else p) (find_payment_by_order d oid)"
  unfolding find_payment_by_order_def update_payment_def
  by (simp add: find_map_preserved assms)

lemma find_by_payment_id_update:
  assumes "\<And>x. razorpayPaymentId (f x) = razorpayPaymentId x"
  shows "find_payment_by_payment_id (update_payment i f d) pid
     = map_option (\<lambda>p. if pay_id p = i then f p else p) (find_payment_by_payment_id d pid)"
  unfolding find_payment_by_payment_id_def update_payment_def
  by (simp add: find_map_preserved assms)

lemma count_staff:
  "count_active_employees (sample_db (staff n) s p) ''org1'' = 1 + int n"
  by (simp add: count_active_employees_def sample_db_def staff_def admin_def loner_def
      employee_of_def filter_map comp_def)

lemma count_no_staff:
  "count_active_employees (sample_db [] s p) ''org1'' = 1"
  by (simp add: count_active_employees_def sample_db_def admin_def loner_def)

lemma find_user_admin: "find_user (sample_db extra s p) ''u1'' = Some admin"
  by (simp add: find_user_def sample_db_def admin_def)

lemma find_plan_sample:
  "find_plan (sample_db extra s p) ''starter'' = Some starter"
  "find_plan (sample_db extra s p) ''professional'' = Some professional"
  "find_plan (sample_db extra s p) ''enterprise'' = Some enterprise"
  by (simp_all add: find_plan_def sample_db_def starter_def professional_def enterprise_def)

lemma find_sub_sample:
  "find_subscription_by_org (sample_db extra (sample_subscription pid st pe) p) ''org1''
     = Some (sample_subscription pid st pe)"
  by (simp add: find_subscription_by_org_def sample_db_def sample_subscription_def)

lemma sample_find_payment:
  "find_payment_by_order (sample_db extra s (sample_payment st)) ''order_1'' = Some (sample_payment st)"
  by (simp add: find_payment_by_order_def sample_db_def sample_payment_def)

lemma sample_find_payment_id:
  "st \<noteq> CREATED \<Longrightarrow>
   find_payment_by_payment_id (sample_db extra s (sample_payment st)) ''pay_1'' = Some (sample_payment st)"
  by (simp add: find_payment_by_payment_id_def sample_db_def sample_payment_def)

lemma sample_confirmation:
  "verify_payment sample_hmac ''key_secret'' never_fails (Some ''upi'') ''202611'' ''A1B2C3D4''
      (sample_db [] (sample_subscription ''starter'' st pe) (sample_payment pst)) 7000 confirmation
   = ((sample_db [] (activate ''professional'' ''MONTHLY'' 7000 (sample_subscription ''starter'' st pe))
          (capture_payment confirmation (Some ''upi'') 7000 (sample_payment pst)))
        \<lparr>invoices := [new_invoice (sample_payment pst) ''INV-202611-A1B2C3D4'' ''MONTHLY'' 7000],
         auditLogs := [\<lparr>log_userId = ''u1'', log_action = ''PAYMENT'',
                        log_entityType = ''Subscription'', log_entityId = ''s1''\<rparr>]\<rparr>,
      VOk (Some ACTIVE) ''INV-202611-A1B2C3D4'')"
  by (simp add: verify_payment_def verifyRazorpaySignature_def write_payment_def
        write_subscription_def write_invoice_def write_audit_log_def cycle_of_def
        confirmation_def never_fails_def sample_hmac_def sample_db_def
        sample_subscription_def sample_payment_def query_defs activate_def capture_payment_def
        Let_def)

section \<open>The entitlement guard\<close>

text \<open>
  C5, as the code has it. A request whose user has an organisation with a subscription is
  denied with HTTP 403 and the code of its stored status (\<^verbatim>\<open>TRIAL_EXPIRED\<close> for an
  expired trial, \<^verbatim>\<open>SUBSCRIPTION_PAST_DUE\<close> for an expired active period,
  \<^verbatim>\<open>SUBSCRIPTION_SUSPENDED\<close> for a past-due subscription beyond the grace window,
  \<^verbatim>\<open>SUBSCRIPTION_INACTIVE\<close> for a stored EXPIRED, CANCELLED or SUSPENDED status)
  whenever the subscription is neither a still-valid trial, nor an unexpired active one,
  nor past due within the grace window. A past-due subscription within the grace window
  is passed through with the database unchanged.
\<close>

theorem guard_denial:
  assumes "truthy (req_user_id req)"
    and "organization_of (find_user d (the (req_user_id req))) = Some org"
    and "find_subscription_by_org d org = Some s"
  shows "(\<not> trial_valid s now \<and> \<not> active_unexpired s now \<and> \<not> within_grace s now \<longrightarrow>
            (\<exists>r. snd (checkSubscription d now req) = Reply r \<and> http_status r = 403
                 \<and> code r = Some (denial_code (sub_status s))))
       \<and> (within_grace s now \<longrightarrow>
            checkSubscription d now req = (d, attach req s (find_plan d (sub_planId s)) org))"
  using assms
  by (cases "sub_status s")
     (auto simp: checkSubscription_def trial_valid_def active_unexpired_def within_grace_def
        denial_code_def split: option.splits)

theorem guard_denial_witness:
  "truthy (req_user_id (request_of ''u1''))
   \<and> organization_of (find_user (sample_db [] (sample_subscription ''professional'' PAST_DUE (Some 5000)) (sample_payment CAPTURED))
         (the (req_user_id (request_of ''u1'')))) = Some ''org1''
   \<and> \<not> within_grace (sample_subscription ''professional'' PAST_DUE (Some 5000)) 259205001
   \<and> (\<exists>r. snd (checkSubscription (sample_db [] (sample_subscription ''professional'' PAST_DUE (Some 5000)) (sample_payment CAPTURED))
              259205001 (request_of ''u1'')) = Reply r
          \<and> http_status r = 403 \<and> code r = Some ''SUBSCRIPTION_SUSPENDED'')
   \<and> within_grace (sample_subscription ''professional'' PAST_DUE (Some 5000)) 259205000
   \<and> fst (checkSubscription (sample_db [] (sample_subscription ''professional'' PAST_DUE (Some 5000)) (sample_payment CAPTURED))
         259205000 (request_of ''u1''))
       = sample_db [] (sample_subscription ''professional'' PAST_DUE (Some 5000)) (sample_payment CAPTURED)"
proof -
  let ?s = "sample_subscription ''professional'' PAST_DUE (Some 5000)"
  let ?d = "sample_db [] ?s (sample_payment CAPTURED)"
  let ?r = "request_of ''u1''"
  have h1: "truthy (req_user_id ?r)" by (simp add: request_of_def)
  have h2: "organization_of (find_user ?d (the (req_user_id ?r))) = Some ''org1''"
    by (simp add: sample_defs query_defs)
  have h3: "find_subscription_by_org ?d ''org1'' = Some ?s"
    by (simp add: sample_defs query_defs)
  have g1: "\<not> trial_valid ?s 259205001 \<and> \<not> active_unexpired ?s 259205001 \<and> \<not> within_grace ?s 259205001"
    by (simp add: trial_valid_def active_unexpired_def within_grace_def sample_subscription_def gracePeriod_def)
  have g2: "within_grace ?s 259205000"
    by (simp add: within_grace_def sample_subscription_def gracePeriod_def)
  have c: "denial_code (sub_status ?s) = ''SUBSCRIPTION_SUSPENDED''"
    by (simp add: denial_code_def sample_subscription_def)
  from guard_denial [OF h1 h2 h3, of 259205001] g1
  have late: "\<exists>r. snd (checkSubscription ?d 259205001 ?r) = Reply r \<and> http_status r = 403
      \<and> code r = Some ''SUBSCRIPTION_SUSPENDED''"
    unfolding c by blast
  from guard_denial [OF h1 h2 h3, of 259205000] g2
  have "fst (checkSubscription ?d 259205000 ?r) = ?d" by simp
  with late show ?thesis using h1 h2 g1 g2 by simp
qed

text \<open>
  C5 as stated fails: a subscription stored PAST_DUE whose period ended 1000 ms ago is
  neither a valid trial nor active, and the guard calls \<^verbatim>\<open>next()\<close>.
\<close>

theorem guard_passes_past_due_in_grace:
  "checkSubscription (sample_db [] (sample_subscription ''professional'' PAST_DUE (Some 5000)) (sample_payment CAPTURED))
      6000 (request_of ''u1'')
   = (sample_db [] (sample_subscription ''professional'' PAST_DUE (Some 5000)) (sample_payment CAPTURED),
      Next ((request_of ''u1'')\<lparr>req_subscription := Some (sample_subscription ''professional'' PAST_DUE (Some 5000), Some professional),
             req_organizationId := Some ''org1''\<rparr>))"
  by (simp add: checkSubscription_def sample_defs query_defs attach_def gracePeriod_def)

text \<open>
  C8. For a subscription stored PAST_DUE with a period end \<open>pe\<close>, the status stored after
  a guard read at \<open>now\<close> is SUSPENDED if and only if \<open>now\<close> is strictly later than
  \<open>pe\<close> plus 3 days (259200000 ms), and PAST_DUE otherwise.
\<close>

theorem grace_period_boundary:
  assumes "truthy (req_user_id req)"
    and "organization_of (find_user d (the (req_user_id req))) = Some org"
    and "find_subscription_by_org d org = Some s"
    and "sub_status s = PAST_DUE"
    and "currentPeriodEnd s = Some pe"
  shows "map_option sub_status (find_subscription_by_org (fst (checkSubscription d now req)) org)
           = Some (if now > pe + 3 * 24 * 60 * 60 * 1000 then SUSPENDED else PAST_DUE)"
  using assms
  by (simp add: checkSubscription_def gracePeriod_def find_by_org_update set_status_def attach_def)

theorem grace_period_boundary_witness:
  "truthy (req_user_id (request_of ''u1''))
   \<and> organization_of (find_user (sample_db [] (sample_subscription ''professional'' PAST_DUE (Some 5000)) (sample_payment CAPTURED))
         (the (req_user_id (request_of ''u1'')))) = Some ''org1''
   \<and> find_subscription_by_org (sample_db [] (sample_subscription ''professional'' PAST_DUE (Some 5000)) (sample_payment CAPTURED)) ''org1''
       = Some (sample_subscription ''professional'' PAST_DUE (Some 5000))
   \<and> map_option sub_status (find_subscription_by_org
         (fst (checkSubscription (sample_db [] (sample_subscription ''professional'' PAST_DUE (Some 5000)) (sample_payment CAPTURED))
                 (5000 + 259200000) (request_of ''u1''))) ''org1'') = Some PAST_DUE
   \<and> map_option sub_status (find_subscription_by_org
         (fst (checkSubscription (sample_db [] (sample_subscription ''professional'' PAST_DUE (Some 5000)) (sample_payment CAPTURED))
                 (5000 + 259200000 + 1000) (request_of ''u1''))) ''org1'') = Some SUSPENDED"
proof -
  let ?s = "sample_subscription ''professional'' PAST_DUE (Some 5000)"
  let ?d = "sample_db [] ?s (sample_payment CAPTURED)"
  let ?r = "request_of ''u1''"
  have h1: "truthy (req_user_id ?r)" by (simp add: request_of_def)
  have h2: "organization_of (find_user ?d (the (req_user_id ?r))) = Some ''org1''"
    by (simp add: sample_defs query_defs)
  have h3: "find_subscription_by_org ?d ''org1'' = Some ?s"
    by (simp add: sample_defs query_defs)
  have h4: "sub_status ?s = PAST_DUE" by (simp add: sample_subscription_def)
  have h5: "currentPeriodEnd ?s = Some 5000" by (simp add: sample_subscription_def)
  note b = grace_period_boundary [OF h1 h2 h3 h4 h5]
  from b [of "5000 + 259200000"] b [of "5000 + 259200000 + 1000"] h1 h2 h3
  show ?thesis by simp
qed

text \<open>
  C10. For an authenticated user with no organisation, \<^const>\<open>checkSubscription\<close>
  attaches a null subscription and calls \<^verbatim>\<open>next()\<close>; \<^const>\<open>enforceEmployeeLimit\<close>
  and \<^const>\<open>requireFeature\<close> then pass the request through as well, for every feature
  and every database.
\<close>

theorem no_organization_unrestricted:
  assumes "truthy (req_user_id req)"
    and "organization_of (find_user d (the (req_user_id req))) = None"
  shows "checkSubscription d now req = (d, Next (req\<lparr>req_subscription := None\<rparr>))
       \<and> enforceEmployeeLimit d (req\<lparr>req_subscription := None\<rparr>) = Next (req\<lparr>req_subscription := None\<rparr>)
       \<and> requireFeature feature (req\<lparr>req_subscription := None\<rparr>) = Next (req\<lparr>req_subscription := None\<rparr>)
       \<and> entitlement_chain feature d now req = (d, Next (req\<lparr>req_subscription := None\<rparr>))"
  using assms
  by (simp add: checkSubscription_def enforceEmployeeLimit_def requireFeature_def entitlement_chain_def)

theorem no_organization_unrestricted_witness:
  "truthy (req_user_id (request_of ''u0''))
   \<and> organization_of (find_user (sample_db [] (sample_subscription ''starter'' EXPIRED (Some 5000)) (sample_payment CREATED))
         (the (req_user_id (request_of ''u0'')))) = None
   \<and> entitlement_chain ''payroll'' (sample_db [] (sample_subscription ''starter'' EXPIRED (Some 5000)) (sample_payment CREATED))
         6000 (request_of ''u0'')
       = (sample_db [] (sample_subscription ''starter'' EXPIRED (Some 5000)) (sample_payment CREATED),
          Next (request_of ''u0''))"
proof -
  let ?d = "sample_db [] (sample_subscription ''starter'' EXPIRED (Some 5000)) (sample_payment CREATED)"
  let ?r = "request_of ''u0''"
  have h1: "truthy (req_user_id ?r)" by (simp add: request_of_def)
  have h2: "organization_of (find_user ?d (the (req_user_id ?r))) = None"
    by (simp add: sample_defs query_defs)
  have same: "?r\<lparr>req_subscription := None\<rparr> = ?r" by (simp add: request_of_def)
  from no_organization_unrestricted [OF h1 h2, where feature = "''payroll''" and now = 6000] h1 h2 same
  show ?thesis by simp
qed

section \<open>Plan changes\<close>

text \<open>
  C7. A plan change that reaches the seat check is refused, with the database unchanged,
  whenever the target plan's ceiling is not \<open>-1\<close> and the number of active seats is
  strictly greater than it; with at most that many seats, or with ceiling \<open>-1\<close>, the
  handler goes on to apply the change and its answer is never the seat refusal.
\<close>

theorem seat_limit_on_plan_change:
  assumes "truthy (cp_planId rq)"
    and "organization_of (find_user d (cp_user_id rq)) = Some org"
    and "find_plan d (the (cp_planId rq)) = Some newPlan"
    and "isActive newPlan"
    and "find_subscription_by_org d org = Some s"
  shows "(maxEmployees newPlan \<noteq> - 1 \<and> count_active_employees d org > maxEmployees newPlan \<longrightarrow>
           change_plan d rq = (d, CannotDowngrade (count_active_employees d org) (maxEmployees newPlan)))
       \<and> (maxEmployees newPlan = - 1 \<or> count_active_employees d org \<le> maxEmployees newPlan \<longrightarrow>
           change_plan d rq = apply_change d s newPlan
           \<and> (\<forall>n m. snd (change_plan d rq) \<noteq> CannotDowngrade n m))"
  using assms
  by (auto simp: change_plan_def seat_check_def apply_change_def Let_def split: option.splits)

theorem seat_limit_on_plan_change_witness:
  "change_plan (sample_db (staff 29) (sample_subscription ''professional'' ACTIVE (Some 5000)) (sample_payment CAPTURED))
      (change_to ''starter'')
    = (sample_db (staff 29) (sample_subscription ''professional'' ACTIVE (Some 5000)) (sample_payment CAPTURED),
       CannotDowngrade 30 25)
   \<and> change_plan (sample_db (staff 24) (sample_subscription ''professional'' ACTIVE (Some 5000)) (sample_payment CAPTURED))
      (change_to ''starter'')
    = apply_change (sample_db (staff 24) (sample_subscription ''professional'' ACTIVE (Some 5000)) (sample_payment CAPTURED))
        (sample_subscription ''professional'' ACTIVE (Some 5000)) starter
   \<and> change_plan (sample_db (staff 29) (sample_subscription ''professional'' ACTIVE (Some 5000)) (sample_payment CAPTURED))
      (change_to ''enterprise'')
    = apply_change (sample_db (staff 29) (sample_subscription ''professional'' ACTIVE (Some 5000)) (sample_payment CAPTURED))
        (sample_subscription ''professional'' ACTIVE (Some 5000)) enterprise"
proof -
  let ?s = "sample_subscription ''professional'' ACTIVE (Some 5000)"
  let ?d = "\<lambda>n. sample_db (staff n) ?s (sample_payment CAPTURED)"
  have h1: "truthy (cp_planId (change_to pid))" if "pid \<noteq> []" for pid
    using that by (simp add: change_to_def)
  have h2: "organization_of (find_user (?d n) (cp_user_id (change_to pid))) = Some ''org1''" for n pid
    by (simp add: change_to_def find_user_admin organization_of_def admin_def)
  have h3: "find_plan (?d n) (the (cp_planId (change_to ''starter''))) = Some starter"
       "find_plan (?d n) (the (cp_planId (change_to ''enterprise''))) = Some enterprise" for n
    by (simp_all add: change_to_def find_plan_sample)
  have h4: "isActive starter" "isActive enterprise" by (simp_all add: starter_def enterprise_def)
  have h5: "find_subscription_by_org (?d n) ''org1'' = Some ?s" for n
    by (rule find_sub_sample)
  have m: "maxEmployees starter = 25" "maxEmployees enterprise = - 1"
    by (simp_all add: starter_def enterprise_def)
  note a = seat_limit_on_plan_change [OF h1 h2 h3(1) h4(1) h5, of 29]
   and b = seat_limit_on_plan_change [OF h1 h2 h3(1) h4(1) h5, of 24]
   and c = seat_limit_on_plan_change [OF h1 h2 h3(2) h4(2) h5, of 29]
  from a b c show ?thesis by (simp add: count_staff m)
qed

text \<open>
  What the handler does for a non-trial subscription whose request passes the seat check:
  a change to a plan with a higher monthly price answers requires-payment and writes
  nothing; any other change leaves the plan as it is and stores the pending plan change
  with the current period end as its effective date.
\<close>

lemma plan_change_answers:
  assumes "truthy (cp_planId rq)"
    and "organization_of (find_user d (cp_user_id rq)) = Some org"
    and "find_plan d (the (cp_planId rq)) = Some newPlan"
    and "isActive newPlan"
    and "find_subscription_by_org d org = Some s"
    and "seat_check d org newPlan = None"
    and "sub_status s \<noteq> TRIAL"
    and "find_plan d (sub_planId s) = Some cur"
  shows "(monthlyPrice newPlan > monthlyPrice cur \<longrightarrow>
            change_plan d rq = (d, RequiresPayment (plan_id newPlan)))
       \<and> (\<not> monthlyPrice newPlan > monthlyPrice cur \<longrightarrow>
            snd (change_plan d rq) = DowngradeScheduled (plan_name newPlan) (currentPeriodEnd s)
          \<and> find_subscription_by_org (fst (change_plan d rq)) org
              = Some (s\<lparr>metadata := Some \<lparr>pendingPlanChange = plan_id newPlan,
                                           pendingPlanName = plan_name newPlan,
                                           changeEffectiveDate = currentPeriodEnd s\<rparr>\<rparr>))"
proof -
  have run: "change_plan d rq = apply_change d s newPlan"
    using assms by (simp add: change_plan_def)
  have up: "monthlyPrice newPlan > monthlyPrice cur \<Longrightarrow> apply_change d s newPlan = (d, RequiresPayment (plan_id newPlan))"
    using assms by (simp add: apply_change_def)
  have down: "apply_change d s newPlan
      = (update_subscription (sub_id s) (pending_change newPlan) d,
         DowngradeScheduled (plan_name newPlan) (currentPeriodEnd s))"
    if "\<not> monthlyPrice newPlan > monthlyPrice cur"
    using assms that by (simp add: apply_change_def)
  have stored: "find_subscription_by_org (update_subscription (sub_id s) (pending_change newPlan) d) org
      = Some (pending_change newPlan s)"
    using assms(5) by (simp add: find_by_org_update pending_change_def)
  show ?thesis
    using up down stored by (auto simp: run pending_change_def)
qed

text \<open>
  C6 fails on the code. A downgrade from Professional to Starter is answered "will be
  downgraded at the end of your current billing period" and stored with the effective
  date 5000, the period end. The guard read at 5001, after the period has ended, marks
  the subscription PAST_DUE; the plan is still Professional and the pending change is
  still only stored. No handler reads it.
\<close>

theorem pending_downgrade_not_applied:
  "map sub_planId (subscriptions (fst (checkSubscription
       (fst (change_plan (sample_db [] (sample_subscription ''professional'' ACTIVE (Some 5000)) (sample_payment CAPTURED))
               (change_to ''starter'')))
       5001 (request_of ''u1'')))) = [''professional'']
   \<and> map sub_status (subscriptions (fst (checkSubscription
       (fst (change_plan (sample_db [] (sample_subscription ''professional'' ACTIVE (Some 5000)) (sample_payment CAPTURED))
               (change_to ''starter'')))
       5001 (request_of ''u1'')))) = [PAST_DUE]
   \<and> map (map_option pendingPlanChange \<circ> metadata) (subscriptions
       (fst (change_plan (sample_db [] (sample_subscription ''professional'' ACTIVE (Some 5000)) (sample_payment CAPTURED))
               (change_to ''starter'')))) = [Some ''starter'']"
  by (simp add: change_plan_def seat_check_def apply_change_def checkSubscription_def
        sample_defs query_defs set_status_def pending_change_def)

section \<open>The signature gate of the webhook\<close>

text \<open>
  C3, as the code has it. A delivery with a non-empty signature header that differs from
  the HMAC, under the webhook secret, of the re-serialised parsed body is answered 400 and
  writes nothing. A delivery whose signature header is absent or empty is not verified:
  its event is handled and the answer is 200. The bytes as received play no part.
\<close>

theorem webhook_signature_gate:
  "(truthy (wh_signature rq)
      \<and> hmac (if truthy env_secret then the env_secret else []) (stringify (wh_body rq))
          \<noteq> the (wh_signature rq)
      \<longrightarrow> webhook hmac stringify env_secret d now rq = (d, Response 400 ''Invalid signature'' None))
   \<and> (\<not> truthy (wh_signature rq)
      \<longrightarrow> webhook hmac stringify env_secret d now rq
            = (handle_event d now (wh_body rq), Response 200 [] None))
   \<and> webhook hmac stringify env_secret d now (rq\<lparr>wh_raw_body := raw\<rparr>)
       = webhook hmac stringify env_secret d now rq"
  by (simp add: webhook_def verifyWebhookSignature_def Let_def)

theorem webhook_signature_gate_witness:
  "webhook sample_hmac sample_stringify (Some ''whsec'')
      (sample_db [] (sample_subscription ''professional'' TRIAL None) (sample_payment CREATED))
      7000 (delivery (Some ''forged'') (PaymentCaptured entity))
   = (sample_db [] (sample_subscription ''professional'' TRIAL None) (sample_payment CREATED),
      Response 400 ''Invalid signature'' None)
   \<and> webhook sample_hmac sample_stringify (Some ''whsec'')
      (sample_db [] (sample_subscription ''professional'' TRIAL None) (sample_payment CREATED))
      7000 (delivery (Some []) (PaymentCaptured entity))
   = (handle_event (sample_db [] (sample_subscription ''professional'' TRIAL None) (sample_payment CREATED))
        7000 (PaymentCaptured entity),
      Response 200 [] None)"
proof -
  let ?d = "sample_db [] (sample_subscription ''professional'' TRIAL None) (sample_payment CREATED)"
  have forged: "truthy (wh_signature (delivery (Some ''forged'') (PaymentCaptured entity)))
      \<and> sample_hmac (if truthy (Some ''whsec'') then the (Some ''whsec'') else [])
           (sample_stringify (wh_body (delivery (Some ''forged'') (PaymentCaptured entity))))
          \<noteq> the (wh_signature (delivery (Some ''forged'') (PaymentCaptured entity)))"
    by (simp add: delivery_def sample_hmac_def)
  have empty: "\<not> truthy (wh_signature (delivery (Some []) (PaymentCaptured entity)))"
    by (simp add: delivery_def)
  from webhook_signature_gate [of "delivery (Some ''forged'') (PaymentCaptured entity)" sample_hmac
         "Some ''whsec''" sample_stringify ?d 7000] forged
       webhook_signature_gate [of "delivery (Some []) (PaymentCaptured entity)" sample_hmac
         "Some ''whsec''" sample_stringify ?d 7000] empty
  show ?thesis by (simp add: delivery_def)
qed

text \<open>
  C3 as stated fails: a \<^verbatim>\<open>payment.captured\<close> delivery with no signature header is
  answered 200 and marks the payment CAPTURED.
\<close>

theorem unsigned_webhook_processed:
  "webhook sample_hmac sample_stringify (Some ''whsec'')
      (sample_db [] (sample_subscription ''professional'' TRIAL None) (sample_payment CREATED))
      7000 (delivery None (PaymentCaptured entity))
   = (update_payment ''p1'' (on_captured entity 7000)
        (sample_db [] (sample_subscription ''professional'' TRIAL None) (sample_payment CREATED)),
      Response 200 [] None)
   \<and> map pay_status (payments (fst (webhook sample_hmac sample_stringify (Some ''whsec'')
      (sample_db [] (sample_subscription ''professional'' TRIAL None) (sample_payment CREATED))
      7000 (delivery None (PaymentCaptured entity))))) = [CAPTURED]"
  by (simp add: webhook_def handle_event_def payment_id_taken_def delivery_def entity_def
        sample_defs query_defs on_captured_def)

section \<open>A successful verify-payment call\<close>

text \<open>The database after the payment write of a confirmation that passed its checks.\<close>

lemma write_audit_log_ok:
  assumes "snd (write_audit_log fails rq p number d) = VOk st num"
  shows "num = number \<and> fst (write_audit_log fails rq p number d)
      = d\<lparr>auditLogs := auditLogs d @ [\<lparr>log_userId = vr_user_id rq, log_action = ''PAYMENT'',
            log_entityType = ''Subscription'', log_entityId = pay_subscriptionId p\<rparr>]\<rparr>"
  using assms by (simp add: write_audit_log_def failed_def Let_def split: if_splits)

lemma write_invoice_ok:
  assumes "snd (write_invoice fails rq p number bc now d) = VOk st num"
  shows "num = number \<and> fst (write_invoice fails rq p number bc now d)
      = d\<lparr>invoices := invoices d @ [new_invoice p number bc now],
           auditLogs := auditLogs d @ [\<lparr>log_userId = vr_user_id rq, log_action = ''PAYMENT'',
            log_entityType = ''Subscription'', log_entityId = pay_subscriptionId p\<rparr>]\<rparr>"
proof (cases "fails InvoiceCreate")
  case True
  with assms show ?thesis by (simp add: write_invoice_def failed_def)
next
  case False
  with assms write_audit_log_ok [of fails rq p number
      "d\<lparr>invoices := invoices d @ [new_invoice p number bc now]\<rparr>" st num]
  show ?thesis by (simp add: write_invoice_def)
qed

lemma write_subscription_ok:
  assumes "snd (write_subscription fails rq p target number bc now d) = VOk st num"
  shows "num = number \<and> find_subscription d (pay_subscriptionId p) \<noteq> None
    \<and> fst (write_subscription fails rq p target number bc now d)
      = (update_subscription (pay_subscriptionId p) (activate target bc now) d)
          \<lparr>invoices := invoices d @ [new_invoice p number bc now],
           auditLogs := auditLogs d @ [\<lparr>log_userId = vr_user_id rq, log_action = ''PAYMENT'',
            log_entityType = ''Subscription'', log_entityId = pay_subscriptionId p\<rparr>]\<rparr>"
proof (cases "fails SubscriptionUpdate \<or> find_subscription d (pay_subscriptionId p) = None")
  case True
  with assms show ?thesis by (simp add: write_subscription_def failed_def)
next
  case False
  with assms write_invoice_ok [of fails rq p number bc now
      "update_subscription (pay_subscriptionId p) (activate target bc now) d" st num]
  show ?thesis by (auto simp: write_subscription_def update_subscription_def)
qed

lemma write_payment_ok:
  assumes "snd (write_payment fails rq fm p target number bc now d) = VOk st num"
  shows "num = number \<and> find_subscription d (pay_subscriptionId p) \<noteq> None
    \<and> fst (write_payment fails rq fm p target number bc now d)
      = (update_subscription (pay_subscriptionId p) (activate target bc now)
           (update_payment (pay_id p) (capture_payment rq fm now) d))
          \<lparr>invoices := invoices d @ [new_invoice p number bc now],
           auditLogs := auditLogs d @ [\<lparr>log_userId = vr_user_id rq, log_action = ''PAYMENT'',
            log_entityType = ''Subscription'', log_entityId = pay_subscriptionId p\<rparr>]\<rparr>"
proof (cases "fails PaymentUpdate")
  case True
  with assms show ?thesis by (simp add: write_payment_def failed_def)
next
  case False
  with assms write_subscription_ok [of fails rq p target number bc now
      "update_payment (pay_id p) (capture_payment rq fm now) d" st num]
  show ?thesis by (simp add: write_payment_def update_payment_def find_subscription_def)
qed

lemma verify_payment_ok:
  assumes "snd (verify_payment hmac key fails fm ym rnd d now rq) = VOk st num"
  shows "\<exists>p target. find_payment_by_order d (the (razorpay_order_id rq)) = Some p
       \<and> find_subscription d (pay_subscriptionId p) \<noteq> None
       \<and> fst (verify_payment hmac key fails fm ym rnd d now rq)
          = (update_subscription (pay_subscriptionId p) (activate target (cycle_of rq) now)
               (update_payment (pay_id p) (capture_payment rq fm now) d))
            \<lparr>invoices := invoices d @ [new_invoice p num (cycle_of rq) now],
             auditLogs := auditLogs d @ [\<lparr>log_userId = vr_user_id rq, log_action = ''PAYMENT'',
                           log_entityType = ''Subscription'', log_entityId = pay_subscriptionId p\<rparr>]\<rparr>"
proof -
  from assms obtain p where p: "find_payment_by_order d (the (razorpay_order_id rq)) = Some p"
    by (cases "find_payment_by_order d (the (razorpay_order_id rq))")
       (auto simp: verify_payment_def split: if_splits)
  define target where "target = (if truthy (vr_planId rq) then the (vr_planId rq)
       else sub_planId (the (find_subscription d (pay_subscriptionId p))))"
  from assms p have run: "verify_payment hmac key fails fm ym rnd d now rq
      = write_payment fails rq fm p target (''INV-'' @ ym @ ''-'' @ rnd) (cycle_of rq) now d"
    by (auto simp: verify_payment_def Let_def target_def failed_def split: if_splits)
  from assms write_payment_ok [of fails rq fm p target "''INV-'' @ ym @ ''-'' @ rnd" "cycle_of rq" now d st num]
  show ?thesis using p by (auto simp: run)
qed

lemma find_by_order_after_verify:
  assumes "snd (verify_payment hmac key fails fm ym rnd d now rq) = VOk st num"
  shows "map_option pay_status
           (find_payment_by_order (fst (verify_payment hmac key fails fm ym rnd d now rq))
              (the (razorpay_order_id rq))) = Some CAPTURED"
proof -
  from verify_payment_ok [OF assms] obtain p target
    where p: "find_payment_by_order d (the (razorpay_order_id rq)) = Some p"
      and d': "fst (verify_payment hmac key fails fm ym rnd d now rq)
          = (update_subscription (pay_subscriptionId p) (activate target (cycle_of rq) now)
               (update_payment (pay_id p) (capture_payment rq fm now) d))
            \<lparr>invoices := invoices d @ [new_invoice p num (cycle_of rq) now],
             auditLogs := auditLogs d @ [\<lparr>log_userId = vr_user_id rq, log_action = ''PAYMENT'',
                           log_entityType = ''Subscription'', log_entityId = pay_subscriptionId p\<rparr>]\<rparr>"
    by blast
  have "find_payment_by_order (fst (verify_payment hmac key fails fm ym rnd d now rq)) oid
      = find_payment_by_order (update_payment (pay_id p) (capture_payment rq fm now) d) oid" for oid
    by (simp add: d' find_payment_by_order_def update_subscription_def)
  then show ?thesis
    using p by (simp add: find_by_order_update capture_payment_def)
qed

section \<open>Payment status writes\<close>

lemma captured_event_status:
  assumes "find_payment_by_order d (pe_order_id e) = Some p"
    and "\<not> payment_id_taken d (pay_id p) (pe_id e)"
  shows "map_option pay_status (find_payment_by_order (handle_event d now (PaymentCaptured e)) (pe_order_id e))
           = Some CAPTURED"
  using assms by (simp add: handle_event_def find_by_order_update on_captured_def)

lemma failed_event_status:
  assumes "find_payment_by_order d (pe_order_id e) = Some p"
    and "\<not> payment_id_taken d (pay_id p) (pe_id e)"
  shows "map_option pay_status (find_payment_by_order (handle_event d now (PaymentFailed e)) (pe_order_id e))
           = Some FAILED"
  using assms by (simp add: handle_event_def find_by_order_update on_failed_def)

lemma refund_event_status:
  assumes "find_payment_by_payment_id d pid = Some p"
  shows "map_option pay_status (find_payment_by_payment_id (handle_event d now (RefundCreated pid)) pid)
           = Some REFUNDED"
  using assms by (simp add: handle_event_def find_by_payment_id_update on_refund_def)

lemma captured_skipped:
  assumes "find_payment_by_order d (pe_order_id e) = Some p" and "pay_status p = CAPTURED"
  shows "handle_event d now (PaymentCaptured e) = d"
  using assms by (simp add: handle_event_def)

lemma taken_swallowed:
  assumes "find_payment_by_order d (pe_order_id e) = Some p"
    and "payment_id_taken d (pay_id p) (pe_id e)"
  shows "handle_event d now (PaymentCaptured e) = d \<and> handle_event d now (PaymentFailed e) = d"
  using assms by (simp add: handle_event_def)

lemma rows_kept_same: "payments d' = payments d \<Longrightarrow> rows_kept i allowed d d'"
  by (simp add: rows_kept_def list_all2_same)

lemma rows_kept_update:
  assumes "\<And>q. pay_status (f q) \<in> set allowed"
  shows "rows_kept i allowed d (update_payment i f d)"
  by (simp add: rows_kept_def update_payment_def list_all2_map2 list_all2_same assms)

lemma rows_kept_payments:
  "payments d' = payments d'' \<Longrightarrow> rows_kept i allowed d d' = rows_kept i allowed d d''"
  by (simp add: rows_kept_def)

lemma written_status:
  "pay_status (on_captured e now x) = CAPTURED"
  "pay_status (on_failed e x) = FAILED"
  "pay_status (on_refund now x) = REFUNDED"
  by (simp_all add: on_captured_def on_failed_def on_refund_def)

lemma handled_cases:
  "handle_event d now ev = d
   \<or> (\<exists>q f. event_payment d ev = Some q \<and> handle_event d now ev = update_payment (pay_id q) f d
          \<and> (\<forall>x. pay_status (f x) \<in> set (event_status ev)))"
proof (cases ev)
  case (PaymentCaptured e)
  show ?thesis
  proof (cases "find_payment_by_order d (pe_order_id e)")
    case None
    with PaymentCaptured show ?thesis by (simp add: handle_event_def)
  next
    case (Some p)
    with PaymentCaptured have "handle_event d now ev = d
        \<or> handle_event d now ev = update_payment (pay_id p) (on_captured e now) d"
      by (simp add: handle_event_def)
    moreover have "event_payment d ev = Some p"
      using PaymentCaptured Some by (simp add: event_payment_def)
    moreover have "\<forall>x. pay_status (on_captured e now x) \<in> set (event_status ev)"
      using PaymentCaptured by (simp add: event_status_def written_status)
    ultimately show ?thesis by blast
  qed
next
  case (PaymentFailed e)
  show ?thesis
  proof (cases "find_payment_by_order d (pe_order_id e)")
    case None
    with PaymentFailed show ?thesis by (simp add: handle_event_def)
  next
    case (Some p)
    with PaymentFailed have "handle_event d now ev = d
        \<or> handle_event d now ev = update_payment (pay_id p) (on_failed e) d"
      by (simp add: handle_event_def)
    moreover have "event_payment d ev = Some p"
      using PaymentFailed Some by (simp add: event_payment_def)
    moreover have "\<forall>x. pay_status (on_failed e x) \<in> set (event_status ev)"
      using PaymentFailed by (simp add: event_status_def written_status)
    ultimately show ?thesis by blast
  qed
next
  case (RefundCreated i)
  show ?thesis
  proof (cases "find_payment_by_payment_id d i")
    case None
    with RefundCreated show ?thesis by (simp add: handle_event_def)
  next
    case (Some p)
    with RefundCreated have "handle_event d now ev = update_payment (pay_id p) (on_refund now) d"
      by (simp add: handle_event_def)
    moreover have "event_payment d ev = Some p"
      using RefundCreated Some by (simp add: event_payment_def)
    moreover have "\<forall>x. pay_status (on_refund now x) \<in> set (event_status ev)"
      using RefundCreated by (simp add: event_status_def written_status)
    ultimately show ?thesis by blast
  qed
next
  case (OtherEvent t)
  then show ?thesis by (simp add: handle_event_def)
qed

lemma nothing_to_handle:
  "event_payment d ev = None \<Longrightarrow> handle_event d now ev = d"
  by (cases ev) (simp_all add: event_payment_def handle_event_def)

lemma event_frame:
  "(case event_payment d ev of
      None \<Rightarrow> handle_event d now ev = d
    | Some q \<Rightarrow> rows_kept (pay_id q) (event_status ev) d (handle_event d now ev)
               \<and> (handle_event d now ev)\<lparr>payments := payments d\<rparr> = d)"
proof (cases "event_payment d ev")
  case None
  then show ?thesis by (simp add: nothing_to_handle)
next
  case (Some q)
  from handled_cases [of d now ev] show ?thesis
  proof
    assume "handle_event d now ev = d"
    with Some show ?thesis by (simp add: rows_kept_same)
  next
    assume "\<exists>q f. event_payment d ev = Some q \<and> handle_event d now ev = update_payment (pay_id q) f d
          \<and> (\<forall>x. pay_status (f x) \<in> set (event_status ev))"
    then obtain f where f: "handle_event d now ev = update_payment (pay_id q) f d"
        "\<And>x. pay_status (f x) \<in> set (event_status ev)"
      using Some by auto
    have "rows_kept (pay_id q) (event_status ev) d (update_payment (pay_id q) f d)"
      by (rule rows_kept_update) (rule f(2))
    moreover have "(update_payment (pay_id q) f d)\<lparr>payments := payments d\<rparr> = d"
      by (simp add: update_payment_def)
    ultimately show ?thesis using Some by (simp add: f(1))
  qed
qed

lemma write_audit_log_payments:
  "payments (fst (write_audit_log fails rq p number d)) = payments d"
  by (simp add: write_audit_log_def Let_def)

lemma write_invoice_payments:
  "payments (fst (write_invoice fails rq p number bc now d)) = payments d"
  by (simp add: write_invoice_def write_audit_log_payments)

lemma write_subscription_payments:
  "payments (fst (write_subscription fails rq p target number bc now d)) = payments d"
  by (simp add: write_subscription_def write_invoice_payments update_subscription_def)

lemma write_payment_payments:
  "payments (fst (write_payment fails rq fm p target number bc now d)) = payments d
   \<or> payments (fst (write_payment fails rq fm p target number bc now d))
       = payments (update_payment (pay_id p) (capture_payment rq fm now) d)"
  by (simp add: write_payment_def write_subscription_payments)

lemma verify_payment_db:
  assumes "find_payment_by_order d (the (razorpay_order_id rq)) = Some q"
  shows "fst (verify_payment hmac key fails fm ym rnd d now rq) = d
     \<or> (\<exists>target. fst (verify_payment hmac key fails fm ym rnd d now rq)
           = fst (write_payment fails rq fm q target (''INV-'' @ ym @ ''-'' @ rnd) (cycle_of rq) now d))"
proof (cases "\<not> truthy (razorpay_order_id rq) \<or> \<not> truthy (razorpay_payment_id rq)
         \<or> \<not> truthy (razorpay_signature rq)")
  case True
  then show ?thesis by (simp add: verify_payment_def)
next
  case ok: False
  show ?thesis
  proof (cases "verifyRazorpaySignature hmac key (the (razorpay_order_id rq))
                  (the (razorpay_payment_id rq)) (the (razorpay_signature rq))")
    case False
    with ok show ?thesis by (simp add: verify_payment_def)
  next
    case True
    show ?thesis
    proof (cases "\<not> truthy (vr_planId rq) \<and> find_subscription d (pay_subscriptionId q) = None")
      case True
      with ok \<open>verifyRazorpaySignature _ _ _ _ _\<close> assms show ?thesis
        by (simp add: verify_payment_def Let_def)
    next
      case False
      with ok \<open>verifyRazorpaySignature _ _ _ _ _\<close> assms
      have "fst (verify_payment hmac key fails fm ym rnd d now rq)
          = fst (write_payment fails rq fm q
                   (if truthy (vr_planId rq) then the (vr_planId rq)
                    else sub_planId (the (find_subscription d (pay_subscriptionId q))))
                   (''INV-'' @ ym @ ''-'' @ rnd) (cycle_of rq) now d)"
        by (auto simp: verify_payment_def Let_def)
      then show ?thesis by blast
    qed
  qed
qed

lemma verify_frame:
  "(case find_payment_by_order d (the (razorpay_order_id rq)) of
      None \<Rightarrow> payments (fst (verify_payment hmac key fails fm ym rnd d now rq)) = payments d
    | Some q \<Rightarrow> rows_kept (pay_id q) [CAPTURED] d (fst (verify_payment hmac key fails fm ym rnd d now rq)))"
proof (cases "find_payment_by_order d (the (razorpay_order_id rq))")
  case None
  then show ?thesis by (simp add: verify_payment_def)
next
  case (Some q)
  have kept: "rows_kept (pay_id q) [CAPTURED] d (update_payment (pay_id q) (capture_payment rq fm now) d)"
    by (rule rows_kept_update) (simp add: capture_payment_def)
  have w: "rows_kept (pay_id q) [CAPTURED] d (fst (write_payment fails rq fm q target number bc now d))"
    for target number bc
  proof (rule disjE [OF write_payment_payments [of fails rq fm q target number bc now d]])
    assume "payments (fst (write_payment fails rq fm q target number bc now d)) = payments d"
    then show ?thesis by (rule rows_kept_same)
  next
    assume "payments (fst (write_payment fails rq fm q target number bc now d))
        = payments (update_payment (pay_id q) (capture_payment rq fm now) d)"
    from rows_kept_payments [OF this] kept show ?thesis by blast
  qed
  from verify_payment_db [OF Some, of hmac key fails fm ym rnd now]
  have "rows_kept (pay_id q) [CAPTURED] d (fst (verify_payment hmac key fails fm ym rnd d now rq))"
  proof
    assume "fst (verify_payment hmac key fails fm ym rnd d now rq) = d"
    then show ?thesis by (simp add: rows_kept_same)
  next
    assume "\<exists>target. fst (verify_payment hmac key fails fm ym rnd d now rq)
           = fst (write_payment fails rq fm q target (''INV-'' @ ym @ ''-'' @ rnd) (cycle_of rq) now d)"
    then obtain target where "fst (verify_payment hmac key fails fm ym rnd d now rq)
           = fst (write_payment fails rq fm q target (''INV-'' @ ym @ ''-'' @ rnd) (cycle_of rq) now d)"
      by blast
    then show ?thesis by (simp only: w)
  qed
  with Some show ?thesis by simp
qed

text \<open>
  C4, as the code has it. No handler compares the status it writes with the status it
  finds, except that the \<^verbatim>\<open>payment.captured\<close> webhook writes nothing when the payment
  found is already CAPTURED. A webhook update that would give the payment found a payment
  id that another row already holds throws, the error is swallowed and nothing is written.
  Otherwise, whatever the status of the payment found: after \<^verbatim>\<open>payment.captured\<close> it
  is CAPTURED and after \<^verbatim>\<open>payment.failed\<close> it is FAILED. After \<^verbatim>\<open>refund.created\<close>
  the payment found is REFUNDED, and after a successful verify-payment it is CAPTURED, again
  whatever its status was. A webhook event that finds no payment writes nothing; one that
  finds a payment leaves every other row of the payment table, and every other table, as
  it was, and writes no status but its own (CAPTURED, FAILED or REFUNDED). A verify-payment
  call leaves every payment but the one found as it was and writes no status but CAPTURED.
\<close>

theorem payment_status_writes:
  "(find_payment_by_order d (pe_order_id e) = Some p \<longrightarrow>
       (pay_status p = CAPTURED \<longrightarrow> handle_event d now (PaymentCaptured e) = d)
     \<and> (payment_id_taken d (pay_id p) (pe_id e) \<longrightarrow>
           handle_event d now (PaymentCaptured e) = d \<and> handle_event d now (PaymentFailed e) = d)
     \<and> (\<not> payment_id_taken d (pay_id p) (pe_id e) \<longrightarrow>
           map_option pay_status
             (find_payment_by_order (handle_event d now (PaymentCaptured e)) (pe_order_id e))
              = Some CAPTURED
         \<and> map_option pay_status
             (find_payment_by_order (handle_event d now (PaymentFailed e)) (pe_order_id e))
              = Some FAILED))
   \<and> (find_payment_by_payment_id d pid = Some p \<longrightarrow>
       map_option pay_status (find_payment_by_payment_id (handle_event d now (RefundCreated pid)) pid)
          = Some REFUNDED)
   \<and> (snd (verify_payment hmac key fails fm ym rnd d now rq) = VOk st num \<longrightarrow>
       map_option pay_status
         (find_payment_by_order (fst (verify_payment hmac key fails fm ym rnd d now rq))
            (the (razorpay_order_id rq))) = Some CAPTURED)
   \<and> (case event_payment d ev of
         None \<Rightarrow> handle_event d now ev = d
       | Some q \<Rightarrow> rows_kept (pay_id q) (event_status ev) d (handle_event d now ev)
                  \<and> (handle_event d now ev)\<lparr>payments := payments d\<rparr> = d)
   \<and> (case find_payment_by_order d (the (razorpay_order_id rq)) of
         None \<Rightarrow> payments (fst (verify_payment hmac key fails fm ym rnd d now rq)) = payments d
       | Some q \<Rightarrow> rows_kept (pay_id q) [CAPTURED] d
                    (fst (verify_payment hmac key fails fm ym rnd d now rq)))"
  using captured_event_status [of d e p now] failed_event_status [of d e p now]
    captured_skipped [of d e p now] taken_swallowed [of d e p now]
    refund_event_status [of d pid p now]
    find_by_order_after_verify [of hmac key fails fm ym rnd d now rq st num]
    event_frame [where d = d and ev = ev and now = now]
    verify_frame [where d = d and rq = rq and hmac = hmac and key = key and fails = fails and fm = fm
      and ym = ym and rnd = rnd and now = now]
  by blast

lemma two_payments_lookup:
  "find_payment_by_order (two_payments st) ''order_1'' = Some (sample_payment st)"
  "st \<noteq> CREATED \<Longrightarrow> find_payment_by_payment_id (two_payments st) ''pay_1'' = Some (sample_payment st)"
  "payment_id_taken (two_payments st) ''p1'' ''pay_2''"
  "\<not> payment_id_taken (two_payments st) ''p1'' ''pay_1''"
  by (simp_all add: two_payments_def other_payment_def find_payment_by_order_def
        find_payment_by_payment_id_def payment_id_taken_def sample_db_def sample_payment_def)

theorem payment_status_writes_witness:
  "pay_status (sample_payment REFUNDED) = REFUNDED
   \<and> map_option pay_status (find_payment_by_order
        (handle_event (two_payments REFUNDED) 7000 (PaymentCaptured entity)) ''order_1'') = Some CAPTURED
   \<and> map_option pay_status (find_payment_by_order
        (handle_event (two_payments REFUNDED) 7000 (PaymentFailed entity)) ''order_1'') = Some FAILED
   \<and> map_option pay_status (find_payment_by_payment_id
        (handle_event (two_payments FAILED) 7000 (RefundCreated ''pay_1'')) ''pay_1'') = Some REFUNDED
   \<and> handle_event (two_payments CAPTURED) 7000 (PaymentCaptured entity) = two_payments CAPTURED
   \<and> handle_event (two_payments CREATED) 7000 (PaymentFailed (entity\<lparr>pe_id := ''pay_2''\<rparr>))
        = two_payments CREATED
   \<and> rows_kept ''p1'' [FAILED] (two_payments CAPTURED)
        (handle_event (two_payments CAPTURED) 7000 (PaymentFailed entity))
   \<and> map_option pay_status (find_payment_by_order
        (fst (verify_payment sample_hmac ''key_secret'' never_fails (Some ''upi'') ''202611'' ''A1B2C3D4''
                (sample_db [] (sample_subscription ''starter'' ACTIVE (Some 5000)) (sample_payment FAILED))
                7000 confirmation)) ''order_1'') = Some CAPTURED"
proof -
  let ?d = "sample_db [] (sample_subscription ''starter'' ACTIVE (Some 5000)) (sample_payment FAILED)"
  have o: "pe_order_id entity = ''order_1''" "pe_id entity = ''pay_1''"
      "pe_order_id (entity\<lparr>pe_id := ''pay_2''\<rparr>) = ''order_1''"
      "pe_id (entity\<lparr>pe_id := ''pay_2''\<rparr>) = ''pay_2''"
      "the (razorpay_order_id confirmation) = ''order_1''"
      "pay_id (sample_payment st) = ''p1''" for st
    by (simp_all add: entity_def confirmation_def sample_payment_def)
  have h3: "snd (verify_payment sample_hmac ''key_secret'' never_fails (Some ''upi'') ''202611''
                   ''A1B2C3D4'' ?d 7000 confirmation) = VOk (Some ACTIVE) ''INV-202611-A1B2C3D4''"
    by (simp add: sample_confirmation)
  have ev: "event_payment (two_payments CAPTURED) (PaymentFailed entity) = Some (sample_payment CAPTURED)"
      "event_status (PaymentFailed entity) = [FAILED]"
    by (simp_all add: event_payment_def event_status_def o two_payments_lookup)
  note a = payment_status_writes [where d = "two_payments REFUNDED" and e = entity
      and p = "sample_payment REFUNDED" and now = 7000]
   and b = payment_status_writes [where d = "two_payments FAILED" and pid = "''pay_1''"
      and p = "sample_payment FAILED" and now = 7000]
   and c = payment_status_writes [where d = "two_payments CAPTURED" and e = entity
      and p = "sample_payment CAPTURED" and now = 7000 and ev = "PaymentFailed entity"]
   and t = payment_status_writes [where d = "two_payments CREATED" and e = "entity\<lparr>pe_id := ''pay_2''\<rparr>"
      and p = "sample_payment CREATED" and now = 7000]
   and v = payment_status_writes [where d = ?d and hmac = sample_hmac and key = "''key_secret''"
      and fails = never_fails and fm = "Some ''upi''" and ym = "''202611''" and rnd = "''A1B2C3D4''"
      and now = 7000 and rq = confirmation and st = "Some ACTIVE" and num = "''INV-202611-A1B2C3D4''"]
  from a have a': "map_option pay_status (find_payment_by_order
        (handle_event (two_payments REFUNDED) 7000 (PaymentCaptured entity)) ''order_1'') = Some CAPTURED"
      "map_option pay_status (find_payment_by_order
        (handle_event (two_payments REFUNDED) 7000 (PaymentFailed entity)) ''order_1'') = Some FAILED"
    by (simp_all add: o two_payments_lookup)
  from b have b': "map_option pay_status (find_payment_by_payment_id
        (handle_event (two_payments FAILED) 7000 (RefundCreated ''pay_1'')) ''pay_1'') = Some REFUNDED"
    by (simp add: two_payments_lookup)
  from c have c': "handle_event (two_payments CAPTURED) 7000 (PaymentCaptured entity) = two_payments CAPTURED"
      "rows_kept ''p1'' [FAILED] (two_payments CAPTURED)
        (handle_event (two_payments CAPTURED) 7000 (PaymentFailed entity))"
    by (simp_all add: o two_payments_lookup ev sample_payment_def)
  from t have t': "handle_event (two_payments CREATED) 7000 (PaymentFailed (entity\<lparr>pe_id := ''pay_2''\<rparr>))
        = two_payments CREATED"
    by (simp add: o two_payments_lookup)
  from v h3 have v': "map_option pay_status (find_payment_by_order
        (fst (verify_payment sample_hmac ''key_secret'' never_fails (Some ''upi'') ''202611'' ''A1B2C3D4''
                ?d 7000 confirmation)) ''order_1'') = Some CAPTURED"
    by (simp add: o)
  from a' b' c' t' v' show ?thesis by (simp add: sample_payment_def)
qed

text \<open>
  C4 as stated fails: a correctly signed \<^verbatim>\<open>payment.failed\<close> event for the order of a
  CAPTURED payment writes FAILED.
\<close>

theorem captured_payment_marked_failed:
  "map pay_status (payments (sample_db [] (sample_subscription ''professional'' ACTIVE (Some 5000)) (sample_payment CAPTURED)))
     = [CAPTURED]
   \<and> map pay_status (payments (fst (webhook sample_hmac sample_stringify (Some ''whsec'')
        (sample_db [] (sample_subscription ''professional'' ACTIVE (Some 5000)) (sample_payment CAPTURED))
        7000 (delivery (Some (sample_hmac ''whsec'' (sample_stringify (PaymentFailed entity))))
                (PaymentFailed entity))))) = [FAILED]"
  by (simp add: webhook_def verifyWebhookSignature_def handle_event_def payment_id_taken_def
        delivery_def entity_def sample_defs query_defs on_failed_def)

section \<open>Replayed and interleaved captures\<close>

lemma captured_twice:
  "handle_event (handle_event d t1 (PaymentCaptured e)) t2 (PaymentCaptured e)
     = handle_event d t1 (PaymentCaptured e)"
proof (cases "find_payment_by_order d (pe_order_id e)")
  case None
  then show ?thesis by (simp add: handle_event_def)
next
  case (Some p)
  show ?thesis
  proof (cases "pay_status p = CAPTURED \<or> payment_id_taken d (pay_id p) (pe_id e)")
    case True
    with Some have "handle_event d t1 (PaymentCaptured e) = d"
      by (auto simp: handle_event_def)
    moreover from True Some have "handle_event d t2 (PaymentCaptured e) = d"
      by (auto simp: handle_event_def)
    ultimately show ?thesis by simp
  next
    case False
    let ?d1 = "update_payment (pay_id p) (on_captured e t1) d"
    have first: "handle_event d t1 (PaymentCaptured e) = ?d1"
      using Some False by (simp add: handle_event_def)
    have "find_payment_by_order ?d1 (pe_order_id e) = Some (on_captured e t1 p)"
      using Some by (simp add: find_by_order_update on_captured_def)
    then have "handle_event ?d1 t2 (PaymentCaptured e) = ?d1"
      by (simp add: handle_event_def on_captured_def)
    with first show ?thesis by simp
  qed
qed

lemma webhook_captured_twice:
  assumes "wh_body rq = PaymentCaptured e"
  shows "fst (webhook hmac stringify env_secret (fst (webhook hmac stringify env_secret d t1 rq)) t2 rq)
     = fst (webhook hmac stringify env_secret d t1 rq)"
  using assms by (simp add: webhook_def Let_def captured_twice)

lemma fold_absorbed:
  assumes "\<And>t1 t2 d. g t2 (g t1 d) = g t1 d"
  shows "fold g ts (g t d) = g t d"
  by (induction ts) (simp_all add: assms)

lemma replay_is_one_delivery:
  assumes "wh_body rq = PaymentCaptured e" and "ts \<noteq> []"
  shows "run_webhooks hmac stringify env_secret (map (\<lambda>t. (t, rq)) ts) d
     = fst (webhook hmac stringify env_secret d (hd ts) rq)"
proof -
  let ?g = "\<lambda>t d'. fst (webhook hmac stringify env_secret d' t rq)"
  have run: "run_webhooks hmac stringify env_secret (map (\<lambda>t. (t, rq)) ts) d = fold ?g ts d"
    by (simp add: run_webhooks_def fold_map comp_def)
  from assms(2) obtain t ts' where ts: "ts = t # ts'" by (cases ts) auto
  have "fold ?g ts' (?g t d) = ?g t d"
    by (rule fold_absorbed) (rule webhook_captured_twice [OF assms(1)])
  with run ts show ?thesis by simp
qed

lemma webhook_frame:
  "invoices (fst (webhook hmac stringify env_secret d t rq)) = invoices d
   \<and> subscriptions (fst (webhook hmac stringify env_secret d t rq)) = subscriptions d"
  by (simp add: webhook_def handle_event_def update_payment_def Let_def
      split: event.splits option.splits)

lemma run_webhooks_frame:
  "invoices (run_webhooks hmac stringify env_secret reqs d) = invoices d
   \<and> subscriptions (run_webhooks hmac stringify env_secret reqs d) = subscriptions d"
  unfolding run_webhooks_def
  by (induction reqs arbitrary: d) (auto simp: webhook_frame)

lemma verify_then_webhooks:
  assumes "snd (verify_payment hmac' key fails fm ym rnd d1 now vrq) = VOk st num"
    and "invoices d1 = invoices d"
  shows "\<exists>p. find_payment_by_order d1 (the (razorpay_order_id vrq)) = Some p
     \<and> invoices (run_webhooks hmac stringify env_secret post
          (fst (verify_payment hmac' key fails fm ym rnd d1 now vrq)))
        = invoices d @ [new_invoice p num (cycle_of vrq) now]
     \<and> map_option currentPeriodEnd (find_subscription
          (run_webhooks hmac stringify env_secret post
             (fst (verify_payment hmac' key fails fm ym rnd d1 now vrq))) (pay_subscriptionId p))
        = Some (Some (if cycle_of vrq = ''YEARLY'' then now + 365 * 24 * 60 * 60 * 1000
                      else now + 30 * 24 * 60 * 60 * 1000))"
proof -
  from verify_payment_ok [OF assms(1)] obtain p target
    where p: "find_payment_by_order d1 (the (razorpay_order_id vrq)) = Some p"
      and sub: "find_subscription d1 (pay_subscriptionId p) \<noteq> None"
      and d2: "fst (verify_payment hmac' key fails fm ym rnd d1 now vrq)
          = (update_subscription (pay_subscriptionId p) (activate target (cycle_of vrq) now)
               (update_payment (pay_id p) (capture_payment vrq fm now) d1))
            \<lparr>invoices := invoices d1 @ [new_invoice p num (cycle_of vrq) now],
             auditLogs := auditLogs d1 @ [\<lparr>log_userId = vr_user_id vrq, log_action = ''PAYMENT'',
                           log_entityType = ''Subscription'', log_entityId = pay_subscriptionId p\<rparr>]\<rparr>"
    by blast
  let ?d2 = "fst (verify_payment hmac' key fails fm ym rnd d1 now vrq)"
  let ?d3 = "run_webhooks hmac stringify env_secret post ?d2"
  have inv: "invoices ?d3 = invoices d @ [new_invoice p num (cycle_of vrq) now]"
    using run_webhooks_frame [of hmac stringify env_secret post ?d2] assms(2)
    by (simp add: d2 update_subscription_def update_payment_def)
  have "find_subscription ?d3 j = find_subscription
      (update_subscription (pay_subscriptionId p) (activate target (cycle_of vrq) now) d1) j" for j
    using run_webhooks_frame [of hmac stringify env_secret post ?d2]
    by (simp add: find_subscription_def d2 update_subscription_def update_payment_def)
  moreover from sub obtain s0 where s0: "find_subscription d1 (pay_subscriptionId p) = Some s0"
    by blast
  moreover from s0 have "sub_id s0 = pay_subscriptionId p"
    by (auto simp: find_subscription_def find_Some_iff)
  ultimately have "map_option currentPeriodEnd (find_subscription ?d3 (pay_subscriptionId p))
      = Some (Some (if cycle_of vrq = ''YEARLY'' then now + 365 * 24 * 60 * 60 * 1000
                    else now + 30 * 24 * 60 * 60 * 1000))"
    by (simp add: find_by_id_update activate_def period_end_def)
  with p inv show ?thesis by blast
qed

text \<open>
  C1, as the code has it. Replaying one \<^verbatim>\<open>payment.captured\<close> delivery any number of
  times leaves the database as the first delivery left it. Webhook deliveries, of any
  events and in any number, create no invoice and change no subscription. One successful
  verify-payment call, with any deliveries before and after it, leaves exactly one more
  invoice than there was, for the payment of its order, and the period end of that
  payment's subscription at the time of the call plus 30 days, or plus 365 days for a
  YEARLY cycle (in milliseconds).
\<close>

theorem capture_applied_once:
  "(wh_body rq = PaymentCaptured e \<and> ts \<noteq> [] \<longrightarrow>
       run_webhooks hmac stringify env_secret (map (\<lambda>t. (t, rq)) ts) d
         = fst (webhook hmac stringify env_secret d (hd ts) rq))
   \<and> invoices (run_webhooks hmac stringify env_secret reqs d) = invoices d
   \<and> subscriptions (run_webhooks hmac stringify env_secret reqs d) = subscriptions d
   \<and> (snd (verify_payment hmac' key fails fm ym rnd
              (run_webhooks hmac stringify env_secret pre d) now vrq) = VOk st num \<longrightarrow>
       (\<exists>p. find_payment_by_order (run_webhooks hmac stringify env_secret pre d)
                (the (razorpay_order_id vrq)) = Some p
          \<and> invoices (run_webhooks hmac stringify env_secret post
               (fst (verify_payment hmac' key fails fm ym rnd
                       (run_webhooks hmac stringify env_secret pre d) now vrq)))
             = invoices d @ [new_invoice p num (cycle_of vrq) now]
          \<and> map_option currentPeriodEnd (find_subscription
               (run_webhooks hmac stringify env_secret post
                  (fst (verify_payment hmac' key fails fm ym rnd
                          (run_webhooks hmac stringify env_secret pre d) now vrq)))
               (pay_subscriptionId p))
             = Some (Some (if cycle_of vrq = ''YEARLY'' then now + 365 * 24 * 60 * 60 * 1000
                           else now + 30 * 24 * 60 * 60 * 1000))))"
  using replay_is_one_delivery [of rq e ts hmac stringify env_secret d]
    run_webhooks_frame [of hmac stringify env_secret reqs d]
    verify_then_webhooks [of hmac' key fails fm ym rnd "run_webhooks hmac stringify env_secret pre d"
       now vrq st num d hmac stringify env_secret post]
    run_webhooks_frame [of hmac stringify env_secret pre d]
  by blast

theorem capture_applied_once_witness:
  "run_webhooks sample_hmac sample_stringify (Some ''whsec'')
      (map (\<lambda>t. (t, delivery (Some (sample_hmac ''whsec'' (sample_stringify (PaymentCaptured entity))))
                       (PaymentCaptured entity))) [7000, 8000])
      (sample_db [] (sample_subscription ''starter'' TRIAL None) (sample_payment CREATED))
    = fst (webhook sample_hmac sample_stringify (Some ''whsec'')
        (sample_db [] (sample_subscription ''starter'' TRIAL None) (sample_payment CREATED)) 7000
        (delivery (Some (sample_hmac ''whsec'' (sample_stringify (PaymentCaptured entity))))
           (PaymentCaptured entity)))
   \<and> length (invoices (run_webhooks sample_hmac sample_stringify (Some ''whsec'')
        [(8000, delivery (Some (sample_hmac ''whsec'' (sample_stringify (PaymentCaptured entity))))
                  (PaymentCaptured entity))]
        (fst (verify_payment sample_hmac ''key_secret'' never_fails (Some ''upi'') ''202611''
                ''A1B2C3D4''
                (run_webhooks sample_hmac sample_stringify (Some ''whsec'')
                   [(6000, delivery (Some (sample_hmac ''whsec'' (sample_stringify (PaymentCaptured entity))))
                             (PaymentCaptured entity))]
                   (sample_db [] (sample_subscription ''starter'' TRIAL None) (sample_payment CREATED)))
                7000 confirmation)))) = 1
   \<and> map_option currentPeriodEnd (find_subscription
        (run_webhooks sample_hmac sample_stringify (Some ''whsec'')
        [(8000, delivery (Some (sample_hmac ''whsec'' (sample_stringify (PaymentCaptured entity))))
                  (PaymentCaptured entity))]
        (fst (verify_payment sample_hmac ''key_secret'' never_fails (Some ''upi'') ''202611''
                ''A1B2C3D4''
                (run_webhooks sample_hmac sample_stringify (Some ''whsec'')
                   [(6000, delivery (Some (sample_hmac ''whsec'' (sample_stringify (PaymentCaptured entity))))
                             (PaymentCaptured entity))]
                   (sample_db [] (sample_subscription ''starter'' TRIAL None) (sample_payment CREATED)))
                7000 confirmation))) ''s1'') = Some (Some 2592007000)
   \<and> currentPeriodEnd (sample_subscription ''starter'' TRIAL None) = None"
proof -
  let ?dlv = "delivery (Some (sample_hmac ''whsec'' (sample_stringify (PaymentCaptured entity))))
                (PaymentCaptured entity)"
  let ?d = "sample_db [] (sample_subscription ''starter'' TRIAL None) (sample_payment CREATED)"
  let ?pre = "run_webhooks sample_hmac sample_stringify (Some ''whsec'') [(6000, ?dlv)] ?d"
  let ?end = "run_webhooks sample_hmac sample_stringify (Some ''whsec'') [(8000, ?dlv)]
        (fst (verify_payment sample_hmac ''key_secret'' never_fails (Some ''upi'') ''202611''
                ''A1B2C3D4'' ?pre 7000 confirmation))"
  have h1: "wh_body ?dlv = PaymentCaptured entity \<and> [7000, 8000::int] \<noteq> []"
    by (simp add: delivery_def)
  have h2: "snd (verify_payment sample_hmac ''key_secret'' never_fails (Some ''upi'') ''202611''
                ''A1B2C3D4'' ?pre 7000 confirmation) = VOk (Some ACTIVE) ''INV-202611-A1B2C3D4''"
    by (simp add: webhook_defs verify_defs sample_defs query_defs Let_def)
  have h3: "invoices ?d = []" by (simp add: sample_db_def)
  have found: "map_option pay_subscriptionId
      (find_payment_by_order ?pre (the (razorpay_order_id confirmation))) = Some ''s1''"
    by (simp add: webhook_defs confirmation_def sample_defs query_defs)
  have monthly: "cycle_of confirmation \<noteq> ''YEARLY''"
    by (simp add: cycle_of_def confirmation_def)
  note t = capture_applied_once [where rq = ?dlv and e = entity and ts = "[7000, 8000]"
      and hmac = sample_hmac and stringify = sample_stringify and env_secret = "Some ''whsec''"
      and d = ?d and hmac' = sample_hmac and key = "''key_secret''" and fails = never_fails
      and fm = "Some ''upi''" and ym = "''202611''" and rnd = "''A1B2C3D4''" and reqs = "[]"
      and pre = "[(6000, ?dlv)]" and now = 7000 and vrq = confirmation and st = "Some ACTIVE"
      and num = "''INV-202611-A1B2C3D4''" and post = "[(8000, ?dlv)]"]
  from t h1 have replay: "run_webhooks sample_hmac sample_stringify (Some ''whsec'')
      (map (\<lambda>t. (t, ?dlv)) [7000, 8000]) ?d
      = fst (webhook sample_hmac sample_stringify (Some ''whsec'') ?d 7000 ?dlv)"
    by simp
  from t h2 obtain p
    where p: "find_payment_by_order ?pre (the (razorpay_order_id confirmation)) = Some p"
      and inv: "invoices ?end
        = invoices ?d @ [new_invoice p ''INV-202611-A1B2C3D4'' (cycle_of confirmation) 7000]"
      and pe: "map_option currentPeriodEnd (find_subscription ?end (pay_subscriptionId p))
        = Some (Some (if cycle_of confirmation = ''YEARLY'' then 7000 + 365 * 24 * 60 * 60 * 1000
                      else 7000 + 30 * 24 * 60 * 60 * 1000))"
    by blast
  from inv have one: "length (invoices ?end) = 1" by (simp add: h3)
  from found p have "pay_subscriptionId p = ''s1''" by simp
  with pe monthly have "map_option currentPeriodEnd (find_subscription ?end ''s1'')
      = Some (Some 2592007000)"
    by simp
  with replay one show ?thesis by (simp add: sample_subscription_def)
qed

text \<open>
  C1 as stated fails: the capture of an order processed by two correctly signed
  \<^verbatim>\<open>payment.captured\<close> deliveries marks the payment CAPTURED, creates no invoice and
  leaves the period end of the subscription unset.
\<close>

theorem webhook_replay_makes_no_invoice:
  "invoices (run_webhooks sample_hmac sample_stringify (Some ''whsec'')
      [(7000, delivery (Some (sample_hmac ''whsec'' (sample_stringify (PaymentCaptured entity))))
                (PaymentCaptured entity)),
       (8000, delivery (Some (sample_hmac ''whsec'' (sample_stringify (PaymentCaptured entity))))
                (PaymentCaptured entity))]
      (sample_db [] (sample_subscription ''professional'' TRIAL None) (sample_payment CREATED))) = []
   \<and> map currentPeriodEnd (subscriptions (run_webhooks sample_hmac sample_stringify (Some ''whsec'')
      [(7000, delivery (Some (sample_hmac ''whsec'' (sample_stringify (PaymentCaptured entity))))
                (PaymentCaptured entity)),
       (8000, delivery (Some (sample_hmac ''whsec'' (sample_stringify (PaymentCaptured entity))))
                (PaymentCaptured entity))]
      (sample_db [] (sample_subscription ''professional'' TRIAL None) (sample_payment CREATED)))) = [None]
   \<and> map pay_status (payments (run_webhooks sample_hmac sample_stringify (Some ''whsec'')
      [(7000, delivery (Some (sample_hmac ''whsec'' (sample_stringify (PaymentCaptured entity))))
                (PaymentCaptured entity)),
       (8000, delivery (Some (sample_hmac ''whsec'' (sample_stringify (PaymentCaptured entity))))
                (PaymentCaptured entity))]
      (sample_db [] (sample_subscription ''professional'' TRIAL None) (sample_payment CREATED)))) = [CAPTURED]"
  by (simp add: webhook_defs sample_defs query_defs)

section \<open>A write that fails half way\<close>

text \<open>
  C2 fails on the code: when the subscription update of a verify-payment call throws, the
  answer is 500, the payment is already CAPTURED, the subscription is still in TRIAL and
  there is no invoice.
\<close>

theorem capture_left_half_written:
  "snd (verify_payment sample_hmac ''key_secret'' (only_fails SubscriptionUpdate) (Some ''upi'')
          ''202611'' ''A1B2C3D4''
          (sample_db [] (sample_subscription ''starter'' TRIAL None) (sample_payment CREATED))
          7000 confirmation) = VFail 500 ''Payment verification failed''
   \<and> map pay_status (payments (fst (verify_payment sample_hmac ''key_secret''
          (only_fails SubscriptionUpdate) (Some ''upi'') ''202611'' ''A1B2C3D4''
          (sample_db [] (sample_subscription ''starter'' TRIAL None) (sample_payment CREATED))
          7000 confirmation))) = [CAPTURED]
   \<and> map sub_status (subscriptions (fst (verify_payment sample_hmac ''key_secret''
          (only_fails SubscriptionUpdate) (Some ''upi'') ''202611'' ''A1B2C3D4''
          (sample_db [] (sample_subscription ''starter'' TRIAL None) (sample_payment CREATED))
          7000 confirmation))) = [TRIAL]
   \<and> invoices (fst (verify_payment sample_hmac ''key_secret''
          (only_fails SubscriptionUpdate) (Some ''upi'') ''202611'' ''A1B2C3D4''
          (sample_db [] (sample_subscription ''starter'' TRIAL None) (sample_payment CREATED))
          7000 confirmation)) = []"
  by (simp add: verify_payment_def verifyRazorpaySignature_def write_payment_def
        write_subscription_def failed_def cycle_of_def
        confirmation_def only_fails_def sample_hmac_def sample_db_def
        sample_subscription_def sample_payment_def query_defs capture_payment_def Let_def)

theorem capture_left_half_written_witness:
  "map pay_status (payments (fst (verify_payment sample_hmac ''key_secret''
          (only_fails SubscriptionUpdate) (Some ''upi'') ''202611'' ''A1B2C3D4''
          (sample_db [] (sample_subscription ''starter'' TRIAL None) (sample_payment CREATED))
          7000 confirmation))) = [CAPTURED]
   \<and> map sub_status (subscriptions (fst (verify_payment sample_hmac ''key_secret''
          (only_fails SubscriptionUpdate) (Some ''upi'') ''202611'' ''A1B2C3D4''
          (sample_db [] (sample_subscription ''starter'' TRIAL None) (sample_payment CREATED))
          7000 confirmation))) \<noteq> [ACTIVE]"
  using capture_left_half_written by simp

section \<open>Rounding to a double\<close>

lemma bit_length_bounds:
  "n > 0 \<Longrightarrow> (2::nat) ^ (bit_length n - 1) \<le> n \<and> n < 2 ^ bit_length n"
proof (induction n rule: bit_length.induct)
  case (1 n)
  show ?case
  proof (cases "n div 2 = 0")
    case True
    with "1.prems" have "n = 1" by (simp add: div_eq_0_iff)
    then show ?thesis by (simp add: bit_length.simps)
  next
    case False
    with "1.IH" "1.prems" have ih: "(2::nat) ^ (bit_length (n div 2) - 1) \<le> n div 2"
        "n div 2 < 2 ^ bit_length (n div 2)"
      by simp_all
    have bl: "bit_length n = Suc (bit_length (n div 2))"
      using "1.prems" by (subst bit_length.simps) simp
    have pos: "bit_length (n div 2) > 0"
      using False by (subst bit_length.simps) simp
    then have p: "(2::nat) ^ bit_length (n div 2) = 2 * 2 ^ (bit_length (n div 2) - 1)"
      by (cases "bit_length (n div 2)") simp_all
    have h: "2 * (n div 2) \<le> n" "n < 2 * (n div 2) + 2" by presburger+
    have g1: "(2::nat) ^ (bit_length n - 1) = 2 ^ bit_length (n div 2)" by (simp add: bl)
    have g2: "(2::nat) ^ bit_length n = 2 * 2 ^ bit_length (n div 2)" by (simp add: bl)
    show ?thesis unfolding g1 g2 using ih p h by linarith
  qed
qed

lemma pow2_pos: "pow2 e > 0"
  by (simp add: pow2_def)

lemma pow2_add: "pow2 (a + b) = pow2 a * pow2 b"
  by (simp add: pow2_def power_int_add)

lemma pow2_mono: "a \<le> b \<Longrightarrow> pow2 a \<le> pow2 b"
  by (simp add: pow2_def power_int_increasing)

lemma pow2_nat: "pow2 (int n) = 2 ^ n"
  by (simp add: pow2_def)

lemma pow2_neg: "pow2 (- int n) = 1 / 2 ^ n"
  by (simp add: pow2_def power_int_minus_divide)

lemma ilog2_bounds:
  assumes "x > 0"
  shows "pow2 (ilog2 x) \<le> x \<and> x < pow2 (ilog2 x + 1)"
proof (cases "x \<ge> 1")
  case True
  define n where "n = nat \<lfloor>x\<rfloor>"
  from True have n: "n > 0" "of_nat n \<le> x" "x < of_nat n + 1"
    unfolding n_def using floor_correct [of x] by (simp_all add: le_floor_iff of_nat_nat)
  from bit_length_bounds [OF n(1)] have b: "2 ^ (bit_length n - 1) \<le> n" "n + 1 \<le> 2 ^ bit_length n"
    by simp_all
  have pos: "bit_length n > 0" using n(1) by (subst bit_length.simps) simp
  have il: "ilog2 x = int (bit_length n - 1)"
    using True pos by (simp add: ilog2_def n_def of_nat_diff)
  have il1: "ilog2 x + 1 = int (bit_length n)"
    using pos by (simp add: il of_nat_diff)
  have "(2::rat) ^ (bit_length n - 1) \<le> of_nat n"
    using of_nat_mono [OF b(1), where 'a = rat] by simp
  moreover have "(of_nat n + 1 :: rat) \<le> 2 ^ bit_length n"
    using of_nat_mono [OF b(2), where 'a = rat] by simp
  ultimately show ?thesis
    using n unfolding il1 unfolding il pow2_nat by linarith
next
  case False
  with assms have x: "0 < x" "x < 1" by simp_all
  define c where "c = \<lceil>1 / x\<rceil>"
  define m where "m = nat (c - 1)"
  from x have "1 / x > 1" by simp
  then have c: "c \<ge> 2" "1 / x \<le> of_int c" "of_int c - 1 < 1 / x"
    unfolding c_def by (simp_all add: less_ceiling_iff[symmetric] ) linarith+
  then have m: "m > 0" "of_nat m = (of_int c :: rat) - 1"
    unfolding m_def by simp_all
  from bit_length_bounds [OF m(1)] have b: "2 ^ (bit_length m - 1) \<le> m" "m + 1 \<le> 2 ^ bit_length m"
    by simp_all
  have pos: "bit_length m > 0" using m(1) by (subst bit_length.simps) simp
  have il: "ilog2 x = - int (bit_length m)"
    using False by (simp add: ilog2_def m_def c_def)
  have il1: "ilog2 x + 1 = - int (bit_length m - 1)"
    using pos by (simp add: il of_nat_diff)
  have lo: "(2::rat) ^ (bit_length m - 1) \<le> of_nat m"
    using of_nat_mono [OF b(1), where 'a = rat] by simp
  have hi: "(of_nat m + 1 :: rat) \<le> 2 ^ bit_length m"
    using of_nat_mono [OF b(2), where 'a = rat] by simp
  have "1 / x \<le> 2 ^ bit_length m" using hi c m by linarith
  then have A: "1 / 2 ^ bit_length m \<le> x"
    using x(1) by (simp add: field_simps)
  have "(2::rat) ^ (bit_length m - 1) < 1 / x" using lo c m by linarith
  then have B: "x < 1 / 2 ^ (bit_length m - 1)"
    using x(1) by (simp add: field_simps)
  show ?thesis unfolding il1 unfolding il pow2_neg using A B by simp
qed

lemma ilog2_unique:
  assumes "x > 0" and "pow2 k \<le> x" and "x < pow2 (k + 1)"
  shows "ilog2 x = k"
proof (rule ccontr)
  assume ne: "ilog2 x \<noteq> k"
  from ilog2_bounds [OF assms(1)] have b: "pow2 (ilog2 x) \<le> x" "x < pow2 (ilog2 x + 1)"
    by simp_all
  show False
  proof (cases "ilog2 x < k")
    case True
    then have "pow2 (ilog2 x + 1) \<le> pow2 k" by (intro pow2_mono) simp
    with b(2) assms(2) show False by linarith
  next
    case False
    with ne have "pow2 (k + 1) \<le> pow2 (ilog2 x)" by (intro pow2_mono) simp
    with b(1) assms(3) show False by linarith
  qed
qed

lemma round_half_even_near: "\<bar>of_int (round_half_even y) - y\<bar> \<le> 1 / 2"
  using floor_correct [of y]
  by (auto simp: round_half_even_def Let_def abs_le_iff)

lemma round_half_even_eq:
  assumes "of_int m - 1 / 2 < y" and "y < of_int m + 1 / 2"
  shows "round_half_even y = m"
proof (cases "y < of_int m")
  case True
  with assms have f: "\<lfloor>y\<rfloor> = m - 1" by (intro floor_unique) simp_all
  from assms have "y - of_int (m - 1) > 1 / 2" by simp
  then show ?thesis by (simp add: round_half_even_def Let_def f)
next
  case False
  with assms have f: "\<lfloor>y\<rfloor> = m" by (intro floor_unique) simp_all
  from assms have "y - of_int m < 1 / 2" by simp
  then show ?thesis by (simp add: round_half_even_def Let_def f)
qed

lemma fl_pos_form:
  assumes "x > 0"
  shows "fl x = of_int (round_half_even (x / pow2 (ilog2 x - 52))) * pow2 (ilog2 x - 52)"
  using assms by (simp add: fl_def Let_def)

lemma fl_error:
  assumes "x \<ge> 0"
  shows "\<bar>fl x - x\<bar> \<le> x * ulp_half"
proof (cases "x = 0")
  case True
  then show ?thesis by (simp add: fl_def)
next
  case False
  with assms have x: "x > 0" by simp
  define s where "s = pow2 (ilog2 x - 52)"
  define y where "y = x / s"
  define m where "m = round_half_even y"
  have s: "s > 0" by (simp add: s_def pow2_pos)
  have xs: "x = y * s" using s by (simp add: y_def)
  have "pow2 (ilog2 x) = s * 2 ^ 52"
    using pow2_add [of "ilog2 x - 52" 52] by (simp add: s_def pow2_def)
  with ilog2_bounds [OF x] have "s * 2 ^ 52 \<le> x" by simp
  then have big: "s / 2 \<le> x * ulp_half" by (simp add: ulp_half_def)
  have "fl x = of_int m * s" by (simp add: fl_pos_form [OF x] m_def y_def s_def)
  then have "fl x - x = (of_int m - y) * s" by (simp add: xs algebra_simps)
  then have "\<bar>fl x - x\<bar> = \<bar>of_int m - y\<bar> * s"
    using s by (simp add: abs_mult)
  also have "\<dots> \<le> (1 / 2) * s"
    using round_half_even_near [of y] s unfolding m_def by (intro mult_right_mono) simp_all
  finally show ?thesis using big by simp
qed

lemma fl_bounds:
  assumes "x \<ge> 0"
  shows "x * (1 - ulp_half) \<le> fl x \<and> fl x \<le> x * (1 + ulp_half)"
  using fl_error [OF assms] by (simp add: abs_le_iff algebra_simps)

lemma fl_value:
  assumes "x > 0" and "pow2 k \<le> x" and "x < pow2 (k + 1)"
    and "of_int m - 1 / 2 < x / pow2 (k - 52)" and "x / pow2 (k - 52) < of_int m + 1 / 2"
  shows "fl x = of_int m * pow2 (k - 52)"
  using assms by (simp add: fl_pos_form ilog2_unique [OF assms(1-3)] round_half_even_eq)

lemma fl_exact:
  assumes "x > 0" and "pow2 k \<le> x" and "x < pow2 (k + 1)"
    and "x / pow2 (k - 52) = of_int m"
  shows "fl x = x"
proof -
  have "fl x = of_int m * pow2 (k - 52)"
    using assms by (intro fl_value) simp_all
  also have "\<dots> = x" using assms(4) [symmetric] pow2_pos [of "k - 52"] by simp
  finally show ?thesis .
qed

lemma ulp_half_range: "0 < ulp_half" "ulp_half < 1"
  by (simp_all add: ulp_half_def)

lemma near_exact: "near 0 t t"
  by (simp add: near_def)

lemma near_nonneg:
  assumes "t \<ge> 0" and "near n t x"
  shows "x \<ge> 0"
proof -
  have "0 \<le> t * (1 - ulp_half) ^ n"
    using assms(1) ulp_half_range by (intro mult_nonneg_nonneg zero_le_power) simp_all
  with assms(2) show ?thesis by (simp add: near_def)
qed

lemma near_fl:
  assumes "t \<ge> 0" and "near n t x"
  shows "near (Suc n) t (fl x)"
proof -
  have x: "x \<ge> 0" by (rule near_nonneg [OF assms])
  from fl_bounds [OF x] have b: "x * (1 - ulp_half) \<le> fl x" "fl x \<le> x * (1 + ulp_half)"
    by simp_all
  have "t * (1 - ulp_half) ^ Suc n = t * (1 - ulp_half) ^ n * (1 - ulp_half)" by simp
  also have "\<dots> \<le> x * (1 - ulp_half)"
    using assms(2) ulp_half_range by (intro mult_right_mono) (simp_all add: near_def)
  also note b(1)
  finally have lo: "t * (1 - ulp_half) ^ Suc n \<le> fl x" .
  note b(2)
  also have "x * (1 + ulp_half) \<le> t * (1 + ulp_half) ^ n * (1 + ulp_half)"
    using assms(2) ulp_half_range by (intro mult_right_mono) (simp_all add: near_def)
  also have "\<dots> = t * (1 + ulp_half) ^ Suc n" by simp
  finally have "fl x \<le> t * (1 + ulp_half) ^ Suc n" .
  with lo show ?thesis unfolding near_def by blast
qed

lemma near_mult:
  assumes "t \<ge> 0" and "t' \<ge> 0" and "near n t x" and "near n' t' x'"
  shows "near (n + n') (t * t') (x * x')"
proof -
  have pos: "0 \<le> t * (1 - ulp_half) ^ n" "0 \<le> t' * (1 - ulp_half) ^ n'"
    using assms(1,2) ulp_half_range by (simp_all add: mult_nonneg_nonneg)
  have x: "x \<ge> 0" "x' \<ge> 0"
    by (rule near_nonneg [OF assms(1,3)], rule near_nonneg [OF assms(2,4)])
  have "(t * (1 - ulp_half) ^ n) * (t' * (1 - ulp_half) ^ n') \<le> x * x'"
    using assms(3,4) pos x by (intro mult_mono) (simp_all add: near_def)
  moreover have "x * x' \<le> (t * (1 + ulp_half) ^ n) * (t' * (1 + ulp_half) ^ n')"
    using assms(3,4) x by (intro mult_mono) (auto simp: near_def intro: order_trans)
  ultimately show ?thesis by (simp add: near_def power_add mult_ac)
qed

lemma near_close:
  assumes "t \<ge> 0" and "near (Suc (Suc (Suc (Suc 0)))) t x"
  shows "\<bar>x - t\<bar> \<le> t * (5 * ulp_half)"
proof -
  have up: "(1 + ulp_half) ^ Suc (Suc (Suc (Suc 0))) \<le> 1 + 5 * ulp_half"
    by (simp add: ulp_half_def)
  have down: "1 - 5 * ulp_half \<le> (1 - ulp_half) ^ Suc (Suc (Suc (Suc 0)))"
    by (simp add: ulp_half_def)
  have "x \<le> t * (1 + 5 * ulp_half)"
    using assms(2) mult_left_mono [OF up assms(1)] unfolding near_def by linarith
  moreover have "t * (1 - 5 * ulp_half) \<le> x"
    using assms(2) mult_left_mono [OF down assms(1)] unfolding near_def by linarith
  ultimately show ?thesis by (simp add: abs_le_iff algebra_simps)
qed

lemma rounded_share:
  fixes p r :: int
  assumes "0 \<le> p" and "p \<le> 10 ^ 13" and "0 \<le> r" and "r \<le> 118"
    and "2 \<le> (r * p + 50) mod 100" and "(r * p + 50) mod 100 \<le> 98"
  shows "Math_round (js_mul (js_mul (js_div (of_int p) 100) (fl (of_int r / 100))) 100)
           = of_int ((r * p + 50) div 100)"
proof -
  define A :: rat where "A = of_int p / 100"
  define R :: rat where "R = of_int r / 100"
  define t :: rat where "t = of_int (r * p) / 100"
  define y where "y = js_mul (js_mul (js_div (of_int p) 100) (fl R)) 100"
  have A0: "A \<ge> 0" and R0: "R \<ge> 0" using assms(1,3) by (simp_all add: A_def R_def)
  have t0: "t \<ge> 0" using assms(1,3) by (simp add: t_def)
  have t: "A * R * 100 = t" by (simp add: t_def A_def R_def mult.commute)
  have a: "near (Suc 0) A (fl A)" by (rule near_fl [OF A0 near_exact])
  have c: "near (Suc 0) R (fl R)" by (rule near_fl [OF R0 near_exact])
  have "near (Suc 0 + Suc 0) (A * R) (fl A * fl R)" by (rule near_mult [OF A0 R0 a c])
  then have "near (Suc (Suc (Suc 0))) (A * R) (fl (fl A * fl R))"
    using near_fl [of "A * R" "Suc (Suc 0)" "fl A * fl R"] A0 R0 by simp
  then have "near (Suc (Suc (Suc 0)) + 0) (A * R * 100) (fl (fl A * fl R) * 100)"
    using A0 R0 by (intro near_mult near_exact) simp_all
  then have "near (Suc (Suc (Suc (Suc 0)))) t (fl (fl (fl A * fl R) * 100))"
    using near_fl [of t "Suc (Suc (Suc 0))" "fl (fl A * fl R) * 100"] t0 by (simp add: t)
  then have "near (Suc (Suc (Suc (Suc 0)))) t y"
    by (simp add: y_def js_mul_def js_div_def A_def)
  from near_close [OF t0 this] have close: "\<bar>y - t\<bar> \<le> t * (5 * ulp_half)" .
  have "r * p \<le> 118 * 10 ^ 13"
    using assms(1-4) by (intro mult_mono) simp_all
  then have "(of_int (r * p) :: rat) \<le> of_int (118 * 10 ^ 13)"
    by (simp only: of_int_le_iff)
  then have "t \<le> 118 * 10 ^ 13 / 100"
    unfolding t_def by simp
  then have "t * (5 * ulp_half) \<le> 118 * 10 ^ 13 / 100 * (5 * ulp_half)"
    using ulp_half_range by (intro mult_right_mono) simp_all
  also have "\<dots> < 1 / 50" by (simp add: ulp_half_def)
  finally have err: "\<bar>y - t\<bar> < 1 / 50" using close by simp
  define n q where "n = (r * p + 50) div 100" and "q = (r * p + 50) mod 100"
  have "r * p + 50 = 100 * n + q" by (simp add: n_def q_def)
  then have "(of_int (r * p + 50) :: rat) = of_int (100 * n + q)" by simp
  then have half: "t + 1 / 2 = of_int n + of_int q / 100"
    by (simp add: t_def field_simps)
  have "(of_int 2 :: rat) \<le> of_int q" "(of_int q :: rat) \<le> of_int 98"
    using assms(5,6) unfolding q_def by (simp_all only: of_int_le_iff)
  then have q: "(2::rat) \<le> of_int q" "of_int q \<le> (98::rat)" by simp_all
  define Q :: rat where "Q = of_int q / 100"
  have Q: "1 / 50 \<le> Q" "Q \<le> 49 / 50" using q by (simp_all add: Q_def)
  have half': "t + 1 / 2 = of_int n + Q" by (simp add: half Q_def)
  from err have e: "y - t < 1 / 50" "t - y < 1 / 50" by linarith+
  have "\<lfloor>y + 1 / 2\<rfloor> = n"
  proof (rule floor_unique)
    show "of_int n \<le> y + 1 / 2" using e half' Q by linarith
    show "y + 1 / 2 < of_int n + 1" using e half' Q by linarith
  qed
  then show ?thesis by (simp add: Math_round_def y_def n_def R_def)
qed

lemma lit_0_18_value: "lit_0_18 = 3242591731706757 / 18014398509481984"
  unfolding lit_0_18_def
  by (subst fl_value [where k = "- 3" and m = 6485183463413514]) (simp_all add: pow2_def)

lemma lit_1_18_value: "lit_1_18 = 5314247560297185 / 4503599627370496"
  unfolding lit_1_18_def
  by (subst fl_value [where k = 0 and m = 5314247560297185]) (simp_all add: pow2_def)

section \<open>Invoice amounts\<close>

lemma tie_free_18:
  fixes p :: int
  assumes "p mod 50 \<noteq> 25"
  shows "2 \<le> (18 * p + 50) mod 100 \<and> (18 * p + 50) mod 100 \<le> 98"
proof -
  define q where "q = (18 * p + 50) mod 100"
  have range: "0 \<le> q" "q < 100" by (simp_all add: q_def)
  have "q \<noteq> 0"
  proof
    assume "q = 0"
    then have "100 dvd 18 * p + 50" by (simp add: q_def dvd_eq_mod_eq_0)
    then obtain k where "18 * p + 50 = 100 * k" by (auto simp: dvd_def)
    then have "2 * (9 * p + 25) = 2 * (50 * k)" by simp
    then have "9 * p + 25 = 50 * k" by (simp only: mult_cancel_left) simp
    then have "p = 50 * (39 * k - 7 * p - 20) + 25" by simp
    then obtain m where "p = 50 * m + 25" by blast
    then have "p mod 50 = 25" by simp
    with assms show False by simp
  qed
  moreover have "2 dvd 18 * p + 50" by simp
  then have "2 dvd q" unfolding q_def by (simp add: dvd_mod_iff)
  then obtain j where "q = 2 * j" by (auto simp: dvd_def)
  ultimately have "0 < j" "j < 50" using range by simp_all
  with \<open>q = 2 * j\<close> have "2 \<le> q \<and> q \<le> 98" by simp
  then show ?thesis by (simp add: q_def)
qed

lemma with_subtotal:
  fixes p :: int
  shows "(118 * p + 50) div 100 = p + (18 * p + 50) div 100"
    and "(118 * p + 50) mod 100 = (18 * p + 50) mod 100"
proof -
  have e: "118 * p + 50 = 100 * p + (18 * p + 50)" by simp
  show "(118 * p + 50) div 100 = p + (18 * p + 50) div 100"
    unfolding e by (rule div_mult_self4) simp
  show "(118 * p + 50) mod 100 = (18 * p + 50) mod 100"
    unfolding e by (rule mod_mult_self4)
qed

lemma professional_order: "order_amount professional ''MONTHLY'' = 149900"
proof -
  have "js_mul 1499 100 = 149900"
    unfolding js_mul_def
    by (subst fl_exact [where k = 17 and m = 5150524781363200]) (simp_all add: pow2_def)
  moreover have "\<lfloor>149900 + 1 / 2 :: rat\<rfloor> = 149900"
    by (rule floor_unique) simp_all
  ultimately show ?thesis
    by (simp add: order_amount_def professional_def Math_round_def)
qed

lemma stored_2_75: "js_div 275 100 = 11 / 4"
  unfolding js_div_def
  by (subst fl_exact [where k = 1 and m = 6192449487634432]) (simp_all add: pow2_def)

lemma tax_of_2_75: "invoice_tax (11 / 4) = 1 / 2"
proof -
  have s1: "js_mul (11 / 4) lit_0_18 = 4458563631096791 / 9007199254740992"
    unfolding js_mul_def lit_0_18_value
    by (subst fl_value [where k = "- 2" and m = 8917127262193582]) (simp_all add: pow2_def)
  have s2: "js_mul (4458563631096791 / 9007199254740992) 100 = 99 / 2"
    unfolding js_mul_def
    by (subst fl_value [where k = 5 and m = 6966505673588736]) (simp_all add: pow2_def)
  have "\<lfloor>99 / 2 + 1 / 2 :: rat\<rfloor> = 50"
    by (rule floor_unique) simp_all
  then have s3: "Math_round (99 / 2) = 50"
    by (simp only: Math_round_def of_int_numeral)
  have s4: "js_div 50 100 = 1 / 2"
    unfolding js_div_def
    by (subst fl_exact [where k = "- 1" and m = 4503599627370496]) (simp_all add: pow2_def)
  show ?thesis by (simp only: invoice_tax_def s1 s2 s3 s4)
qed

lemma total_of_2_75: "invoice_total (11 / 4) = 1823957849085051 / 562949953421312"
proof -
  have s1: "js_mul (11 / 4) lit_1_18 = 7307090395408629 / 2251799813685248"
    unfolding js_mul_def lit_1_18_value
    by (subst fl_value [where k = 1 and m = 7307090395408629]) (simp_all add: pow2_def)
  have s2: "js_mul (7307090395408629 / 2251799813685248) 100 = 5708664371412991 / 17592186044416"
    unfolding js_mul_def
    by (subst fl_value [where k = 8 and m = 5708664371412991]) (simp_all add: pow2_def)
  have "\<lfloor>5708664371412991 / 17592186044416 + 1 / 2 :: rat\<rfloor> = 324"
    by (rule floor_unique) simp_all
  then have s3: "Math_round (5708664371412991 / 17592186044416) = 324"
    by (simp only: Math_round_def of_int_numeral)
  have s4: "js_div 324 100 = 1823957849085051 / 562949953421312"
    unfolding js_div_def
    by (subst fl_value [where k = 1 and m = 7295831396340204]) (simp_all add: pow2_def)
  show ?thesis by (simp only: invoice_total_def s1 s2 s3 s4)
qed

text \<open>
  C9, as the code has it. The invoice of a payment whose stored amount is \<open>p\<close> paise
  (the double nearest to \<open>p / 100\<close>, as create-order stores it), for
  \<open>0 \<le> p \<le> 10^13\<close> and \<open>p mod 50 \<noteq> 25\<close>, that is whenever 18 percent of the
  amount is not exactly half a paisa: the subtotal is the amount, the tax is 18 percent of
  it rounded to whole paise, a half going up, and the total is the subtotal plus that tax,
  each as the double nearest to that number of paise over 100.
\<close>

theorem invoice_amounts:
  fixes p :: int
  assumes "amount pay = js_div (of_int p) 100"
    and "0 \<le> p" and "p \<le> 10 ^ 13" and "p mod 50 \<noteq> 25"
  shows "subtotal (new_invoice pay num bc now) = amount pay
       \<and> tax (new_invoice pay num bc now) = js_div (of_int ((18 * p + 50) div 100)) 100
       \<and> total (new_invoice pay num bc now) = js_div (of_int (p + (18 * p + 50) div 100)) 100"
proof -
  note free = tie_free_18 [OF assms(4)]
  have "Math_round (js_mul (js_mul (js_div (of_int p) 100) (fl (of_int 18 / 100))) 100)
      = of_int ((18 * p + 50) div 100)"
    using assms(2,3) free by (intro rounded_share) simp_all
  then have t: "invoice_tax (amount pay) = js_div (of_int ((18 * p + 50) div 100)) 100"
    by (simp add: invoice_tax_def lit_0_18_def assms(1))
  have "Math_round (js_mul (js_mul (js_div (of_int p) 100) (fl (of_int 118 / 100))) 100)
      = of_int ((118 * p + 50) div 100)"
    using assms(2,3) free by (intro rounded_share) (simp_all add: with_subtotal(2))
  then have "invoice_total (amount pay) = js_div (of_int (p + (18 * p + 50) div 100)) 100"
    by (simp add: invoice_total_def lit_1_18_def assms(1) with_subtotal(1))
  with t show ?thesis by (simp add: new_invoice_def)
qed

theorem invoice_amounts_witness:
  "order_amount professional ''MONTHLY'' = 149900
   \<and> subtotal (new_invoice ((sample_payment CREATED)\<lparr>amount := js_div (order_amount professional ''MONTHLY'') 100\<rparr>)
       ''INV-202611-A1B2C3D4'' ''MONTHLY'' 7000) = 1499
   \<and> tax (new_invoice ((sample_payment CREATED)\<lparr>amount := js_div (order_amount professional ''MONTHLY'') 100\<rparr>)
       ''INV-202611-A1B2C3D4'' ''MONTHLY'' 7000) = js_div 26982 100
   \<and> total (new_invoice ((sample_payment CREATED)\<lparr>amount := js_div (order_amount professional ''MONTHLY'') 100\<rparr>)
       ''INV-202611-A1B2C3D4'' ''MONTHLY'' 7000) = js_div 176882 100"
proof -
  let ?pay = "(sample_payment CREATED)\<lparr>amount := js_div (order_amount professional ''MONTHLY'') 100\<rparr>"
  have h1: "amount ?pay = js_div (of_int 149900) 100" by (simp add: professional_order)
  have h2: "(0::int) \<le> 149900" "(149900::int) \<le> 10 ^ 13" "(149900::int) mod 50 \<noteq> 25"
    by simp_all
  have stored: "js_div 149900 100 = 1499"
    unfolding js_div_def
    by (subst fl_exact [where k = 10 and m = 6592671720144896]) (simp_all add: pow2_def)
  from invoice_amounts [OF h1 h2, of "''INV-202611-A1B2C3D4''" "''MONTHLY''" 7000]
  show ?thesis by (simp add: professional_order stored)
qed

text \<open>
  C9 as stated fails: for a payment of 2.75 the invoice has subtotal 2.75, tax 0.50 and
  total 3.24 (the double nearest to it), which is less than 3.25. The handler rounds
  \<^verbatim>\<open>amount * 1.18 * 100\<close> on its own, and in double arithmetic that product is
  324.49999999999994.
\<close>

theorem invoice_total_off_by_a_paisa:
  "subtotal (new_invoice ((sample_payment CREATED)\<lparr>amount := js_div 275 100\<rparr>)
       ''INV-202611-A1B2C3D4'' ''MONTHLY'' 7000) = 11 / 4
   \<and> tax (new_invoice ((sample_payment CREATED)\<lparr>amount := js_div 275 100\<rparr>)
       ''INV-202611-A1B2C3D4'' ''MONTHLY'' 7000) = 1 / 2
   \<and> total (new_invoice ((sample_payment CREATED)\<lparr>amount := js_div 275 100\<rparr>)
       ''INV-202611-A1B2C3D4'' ''MONTHLY'' 7000) = js_div 324 100
   \<and> js_div 324 100 < 13 / 4"
proof -
  have "js_div 324 100 = 1823957849085051 / 562949953421312"
    unfolding js_div_def
    by (subst fl_value [where k = 1 and m = 7295831396340204]) (simp_all add: pow2_def)
  then show ?thesis
    by (simp add: new_invoice_def stored_2_75 tax_of_2_75 total_of_2_75)
qed

end
